theory Spec2Isabelle
  imports Complex_Main "HOL-Library.AList"
begin

section \<open>Flood Hapi: the extraction pipeline of \<^verbatim>\<open>app.py\<close>\<close>

text \<open>
  The development embeds the core of \<^verbatim>\<open>src/app.py\<close>: the bounding rectangle of the
  search region, the fetch of one remote layer with retries, the two-phase clip, the
  derivation of the output layers and the packaging of a job.

  Coordinates and radii are Python floats (IEEE-754 doubles) in the source. A finite
  double is represented by its value, a \<^typ>\<open>real\<close>; an arithmetic operation of the
  source on doubles gives the exact result rounded to a double, and the rounding is a
  parameter of the model. Infinities and nan are not represented. The geometry library
  (shapely, geopandas, pyproj), pandas, the HTTP client and the file system are not
  code of the repository: their operations are parameters of the model, gathered in
  records, and each function of the source is translated with its own control flow over
  them.
\<close>

subsection \<open>GeometryBuffer\<close>

type_synonym point = "real \<times> real"
type_synonym bbox = "real \<times> real \<times> real \<times> real"

text \<open>
  \<^verbatim>\<open>create_buffer_bbox(easting, northing, radius)\<close>, lines 177-188. The cached
  pyproj transformer \<^verbatim>\<open>_transformer_to_wgs84.transform\<close> is the parameter \<open>transform\<close>.
  \<open>rnd\<close> rounds a real number to a double: each of the four operations is a double
  operation, whose operands are converted to doubles first (the geocoder gives the
  easting and the northing as integers, the request handler gives the radius as a
  float).
\<close>

definition create_buffer_bbox ::
  "(real \<Rightarrow> real) \<Rightarrow> (real \<Rightarrow> real \<Rightarrow> point) \<Rightarrow> real \<Rightarrow> real \<Rightarrow> real \<Rightarrow> bbox \<times> bbox" where
  "create_buffer_bbox rnd transform easting northing radius =
     (let bbox_bng = (rnd (rnd easting - rnd radius), rnd (rnd northing - rnd radius),
                      rnd (rnd easting + rnd radius), rnd (rnd northing + rnd radius));
          (min_lng, min_lat) = (case bbox_bng of (x0, y0, x1, y1) \<Rightarrow> transform x0 y0);
          (max_lng, max_lat) = (case bbox_bng of (x0, y0, x1, y1) \<Rightarrow> transform x1 y1);
          bbox_wgs84 = (min_lng, min_lat, max_lng, max_lat)
      in (bbox_bng, bbox_wgs84))"

text \<open>
  A rounding for concrete inputs: to the nearest multiple of \<open>2 ^ 10\<close>-th. It stands
  in for the rounding to a double only in examples; like that one it leaves every
  integer of these magnitudes as it is.
\<close>

definition round_to_grid :: "real \<Rightarrow> real" where
  "round_to_grid x = of_int (round (x * 1024)) / 1024"

subsection \<open>Feature collections\<close>

text \<open>
  The geometry classes of shapely that the source tests with \<^verbatim>\<open>isinstance\<close>. A polygon
  is given by the vertices of its exterior ring; interior rings are not represented, no
  operation of the program looks at them.
\<close>

datatype geom =
    Point point
  | LineString "point list"
  | Polygon "point list"
  | MultiPoint "point list"
  | MultiLineString "point list list"
  | MultiPolygon "point list list"
  | GeometryCollection "geom list"

text \<open>A value of an attribute column: a string, a number, or missing (None, NaN).\<close>

datatype val = Str string | Num real | Null

text \<open>
  A \<^verbatim>\<open>GeoDataFrame\<close>: the names of its attribute columns, its records in order (each
  with its geometry and its attribute values by column name) and its reference system.
  Index labels are not represented. \<^verbatim>\<open>gpd.GeoDataFrame()\<close> is \<open>GeoDataFrame\<close> below, and
  \<^verbatim>\<open>gdf.empty\<close> holds when there is no record (every record has a geometry column, so
  the frame has no record exactly when an axis has length 0).
\<close>

record row =
  geometry :: geom
  attrs :: "(string \<times> val) list"

record gdf =
  columns :: "string list"
  rows :: "row list"
  crs :: "string option"

definition GeoDataFrame :: gdf where
  "GeoDataFrame = \<lparr>columns = [], rows = [], crs = None\<rparr>"

definition empty :: "gdf \<Rightarrow> bool" where
  "empty g = (rows g = [])"

text \<open>\<^verbatim>\<open>len(gdf)\<close>.\<close>

definition len :: "gdf \<Rightarrow> nat" where
  "len g = length (rows g)"

text \<open>
  The operations of shapely and geopandas that \<^verbatim>\<open>clip_to_buffer\<close> and
  \<^verbatim>\<open>create_buffer_polygon\<close> call. A prepared geometry answers as the geometry it was
  prepared from, so \<^verbatim>\<open>prep\<close> is the identity. \<open>gpd_clip\<close> is \<^verbatim>\<open>gpd.clip(frame, mask)\<close>;
  it is the one operation taken to be able to raise (\<open>Inl\<close> carries the message).
\<close>

record engine =
  buffer :: "point \<Rightarrow> real \<Rightarrow> geom"
  centroid :: "geom \<Rightarrow> geom"
  contains :: "geom \<Rightarrow> geom \<Rightarrow> bool"
  intersects :: "geom \<Rightarrow> geom \<Rightarrow> bool"
  is_valid :: "geom \<Rightarrow> bool"
  make_valid :: "geom \<Rightarrow> geom"
  gpd_clip :: "gdf \<Rightarrow> geom \<Rightarrow> string + gdf"
  unary_union :: "geom list \<Rightarrow> geom"

definition prep :: "geom \<Rightarrow> geom" where
  "prep g = g"

text \<open>\<^verbatim>\<open>create_buffer_polygon\<close>, lines 191-193: \<^verbatim>\<open>Point(easting, northing).buffer(radius)\<close>.\<close>

definition create_buffer_polygon :: "engine \<Rightarrow> real \<Rightarrow> real \<Rightarrow> real \<Rightarrow> geom" where
  "create_buffer_polygon e easting northing radius = buffer e (easting, northing) radius"

subsection \<open>LayerSource\<close>

text \<open>
  An exception is carried by its message (\<^verbatim>\<open>str(e)\<close>); a result of type
  \<open>exn + 'a\<close> is \<open>Inl\<close> when the call raises.
\<close>

type_synonym exn = string
type_synonym bytes = "char list"

text \<open>A word between apostrophes, as Python's messages quote names.\<close>

definition quoted :: "string \<Rightarrow> string" where
  "quoted s = CHR 0x27 # s @ [CHR 0x27]"

definition CRS_BNG :: string where
  "CRS_BNG = ''EPSG:27700''"

definition EA_QUERY_API :: string where
  "EA_QUERY_API = ''https://environment.data.gov.uk/backend/catalog/api/geospatial/query''"

definition EA_LAYER_IDS :: "(string \<times> string) list" where
  "EA_LAYER_IDS =
     [(''rofsw'', ''7a7d1570-dd33-4edc-9a19-fde1b9fcaadb''),
      (''rofsw_0_2m_depth'', ''8aa5d9cb-2a54-4480-b7d6-0aaef9efa576''),
      (''rofsw_0_3m_depth'', ''c36f87b8-100f-4162-bab1-7b3d0fb20c62''),
      (''rofsw_0_6m_depth'', ''212ee02f-9a47-4c55-a4e0-2c7c6e8d35d2''),
      (''rofsw_0_9m_depth'', ''5b3f81a3-f6c7-4637-8b1e-4cf5ef83259e''),
      (''rofsw_1_2m_depth'', ''52819ecb-130c-4a4d-a406-6f003af69988'')]"

text \<open>
  What one \<^verbatim>\<open>_http.post\<close> followed by \<^verbatim>\<open>raise_for_status\<close> gives: an exception
  (transport failure or error status) or the bytes of the response.
\<close>

datatype http_result = HttpError exn | HttpResponse bytes

text \<open>
  The remote service and the parsing libraries. \<open>post url polygon n\<close> is the outcome of
  the \<open>n\<close>-th request (counted from 1) that a call of \<^verbatim>\<open>download_ea_layer\<close> sends;
  \<open>zip_namelist\<close> is \<^verbatim>\<open>zipfile.ZipFile(...).namelist()\<close>, \<open>read_file\<close> is the extraction
  to a temporary directory followed by \<^verbatim>\<open>gpd.read_file\<close> of the named member, and
  \<open>reproject\<close> is the coordinate transformation behind \<^verbatim>\<open>to_crs\<close>. Logging and the
  timers are not represented.
\<close>

record remote =
  post :: "string \<Rightarrow> point list \<Rightarrow> nat \<Rightarrow> http_result"
  zip_namelist :: "bytes \<Rightarrow> exn + string list"
  read_file :: "bytes \<Rightarrow> string \<Rightarrow> exn + gdf"
  reproject :: "string option \<Rightarrow> string \<Rightarrow> point \<Rightarrow> point"

text \<open>What a call does besides returning: the requests it sends and the seconds it sleeps.\<close>

datatype event = Post nat | Sleep nat

text \<open>
  The loop of lines 218-238 over the attempts still to make. \<open>Inr None\<close> is the loop
  ending with \<^verbatim>\<open>resp\<close> unbound, which happens only when the range is empty.
\<close>

fun retry :: "(nat \<Rightarrow> http_result) \<Rightarrow> nat \<Rightarrow> nat list \<Rightarrow> event list \<times> (exn + bytes option)" where
  "retry send max_retries [] = ([], Inr None)"
| "retry send max_retries (attempt # rest) =
     (case send attempt of
        HttpResponse content \<Rightarrow> ([Post attempt], Inr (Some content))
      | HttpError e \<Rightarrow>
          if attempt < max_retries then
            (let wait = attempt * 3;
                 (events, r) = retry send max_retries rest
             in (Post attempt # Sleep wait # events, r))
          else ([Post attempt], Inl e))"

text \<open>\<^verbatim>\<open>n.endswith(suffix)\<close>.\<close>

definition endswith :: "string \<Rightarrow> string \<Rightarrow> bool" where
  "endswith n suffix = (length suffix \<le> length n \<and> drop (length n - length suffix) n = suffix)"

text \<open>
  \<^verbatim>\<open>gdf.explode(index_parts=False).reset_index(drop=True)\<close>: a record whose geometry
  has several parts is replaced by one record per part, with the same attributes.
\<close>

fun parts :: "geom \<Rightarrow> geom list" where
  "parts (MultiPoint ps) = map Point ps"
| "parts (MultiLineString pss) = map LineString pss"
| "parts (MultiPolygon pss) = map Polygon pss"
| "parts (GeometryCollection gs) = gs"
| "parts g = [g]"

definition explode :: "gdf \<Rightarrow> gdf" where
  "explode g =
     g\<lparr>rows := concat (map (\<lambda>r. map (\<lambda>p. r\<lparr>geometry := p\<rparr>) (parts (geometry r))) (rows g))\<rparr>"

text \<open>\<^verbatim>\<open>gdf.to_crs(target)\<close>: every coordinate is transformed, the structure is kept.\<close>

fun map_geom :: "(point \<Rightarrow> point) \<Rightarrow> geom \<Rightarrow> geom" where
  "map_geom f (Point p) = Point (f p)"
| "map_geom f (LineString ps) = LineString (map f ps)"
| "map_geom f (Polygon ps) = Polygon (map f ps)"
| "map_geom f (MultiPoint ps) = MultiPoint (map f ps)"
| "map_geom f (MultiLineString pss) = MultiLineString (map (map f) pss)"
| "map_geom f (MultiPolygon pss) = MultiPolygon (map (map f) pss)"
| "map_geom f (GeometryCollection gs) = GeometryCollection (map (map_geom f) gs)"

definition to_crs :: "remote \<Rightarrow> gdf \<Rightarrow> string \<Rightarrow> gdf" where
  "to_crs w g target =
     g\<lparr>rows := map (\<lambda>r. r\<lparr>geometry := map_geom (reproject w (crs g) target) (geometry r)\<rparr>) (rows g),
       crs := Some target\<rparr>"

text \<open>
  Lines 241-275: what \<^verbatim>\<open>download_ea_layer\<close> makes of the bytes of the response. The
  test \<^verbatim>\<open>gdf.crs and gdf.crs != CRS_BNG\<close> holds for a frame that has a reference system
  other than \<open>CRS_BNG\<close>.
\<close>

definition parse_response :: "remote \<Rightarrow> bytes \<Rightarrow> exn + gdf" where
  "parse_response w content =
     (if length content < 100 then Inr GeoDataFrame
      else
        case zip_namelist w content of
          Inl err \<Rightarrow> Inl err
        | Inr names \<Rightarrow>
            (let shp_names = filter (\<lambda>n. endswith n ''.shp'') names
             in case shp_names of
                  [] \<Rightarrow> Inr GeoDataFrame
                | shp # _ \<Rightarrow>
                    (case read_file w content shp of
                       Inl err \<Rightarrow> Inl err
                     | Inr g \<Rightarrow>
                         if empty g then Inr g
                         else
                           let g1 = explode g;
                               g2 = (if crs g1 \<noteq> None \<and> crs g1 \<noteq> Some CRS_BNG
                                     then to_crs w g1 CRS_BNG else g1)
                           in Inr g2)))"

text \<open>
  \<^verbatim>\<open>download_ea_layer(layer_name, bbox_wgs84, max_retries=3)\<close>, lines 196-275. A layer
  name that is not a key of \<open>EA_LAYER_IDS\<close> raises \<^verbatim>\<open>KeyError\<close> before any request; an
  empty range of attempts leaves \<^verbatim>\<open>resp\<close> unbound at line 241 (the message is that of
  Python 3.11 and later). The budget is a natural number: a negative one gives the
  empty range as 0 does.
\<close>

definition query_polygon :: "bbox \<Rightarrow> point list" where
  "query_polygon bbox_wgs84 =
     (case bbox_wgs84 of (min_lng, min_lat, max_lng, max_lat) \<Rightarrow>
        [(min_lng, min_lat), (min_lng, max_lat), (max_lng, max_lat),
         (max_lng, min_lat), (min_lng, min_lat)])"

definition query_url :: "string \<Rightarrow> string" where
  "query_url layer_id = EA_QUERY_API @ ''?layer='' @ layer_id"

definition download_ea_layer :: "remote \<Rightarrow> string \<Rightarrow> bbox \<Rightarrow> nat \<Rightarrow> event list \<times> (exn + gdf)" where
  "download_ea_layer w layer_name bbox_wgs84 max_retries =
     (case map_of EA_LAYER_IDS layer_name of
        None \<Rightarrow> ([], Inl (quoted layer_name))
      | Some layer_id \<Rightarrow>
          (let (events, r) = retry (post w (query_url layer_id) (query_polygon bbox_wgs84))
                               max_retries [1..<max_retries + 1]
           in (events,
               case r of
                 Inl err \<Rightarrow> Inl err
               | Inr None \<Rightarrow>
                   Inl (''cannot access local variable '' @ quoted ''resp''
                          @ '' where it is not associated with a value'')
               | Inr (Some content) \<Rightarrow> parse_response w content)))"

subsection \<open>SpatialClipper\<close>

text \<open>\<^verbatim>\<open>isinstance(g, (Polygon, MultiPolygon))\<close>.\<close>

fun is_polygonal :: "geom \<Rightarrow> bool" where
  "is_polygonal (Polygon _) = True"
| "is_polygonal (MultiPolygon _) = True"
| "is_polygonal _ = False"

text \<open>
  The local function \<^verbatim>\<open>extract_polygons\<close> of \<^verbatim>\<open>clip_to_buffer\<close>, lines 320-330;
  \<open>None\<close> is Python's \<^verbatim>\<open>None\<close>.
\<close>

definition extract_polygons :: "engine \<Rightarrow> geom \<Rightarrow> geom option" where
  "extract_polygons e g =
     (if is_polygonal g then Some g
      else case g of
        GeometryCollection gs \<Rightarrow>
          (let polys = filter is_polygonal gs
           in case polys of
                [] \<Rightarrow> None
              | [p] \<Rightarrow> Some p
              | _ \<Rightarrow> Some (unary_union e polys))
      | _ \<Rightarrow> None)"

text \<open>
  Lines 332-334: the geometry column is replaced by \<^verbatim>\<open>extract_polygons\<close> of it, and
  \<^verbatim>\<open>dropna(subset=["geometry"])\<close> drops the records where that is \<^verbatim>\<open>None\<close>.
\<close>

definition extract_and_dropna :: "engine \<Rightarrow> gdf \<Rightarrow> gdf" where
  "extract_and_dropna e g =
     g\<lparr>rows := List.map_filter
        (\<lambda>r. map_option (\<lambda>p. r\<lparr>geometry := p\<rparr>) (extract_polygons e (geometry r))) (rows g)\<rparr>"

text \<open>
  Lines 311-314: only the invalid geometries of the edge set are replaced by
  \<^verbatim>\<open>make_valid\<close> of them.
\<close>

definition fix_invalid :: "engine \<Rightarrow> gdf \<Rightarrow> gdf" where
  "fix_invalid e g =
     g\<lparr>rows := map (\<lambda>r. if is_valid e (geometry r) then r
                          else r\<lparr>geometry := make_valid e (geometry r)\<rparr>) (rows g)\<rparr>"

text \<open>
  \<^verbatim>\<open>pd.concat([a, b], ignore_index=True)\<close> wrapped as a frame with reference system
  \<open>c\<close> (line 336): the records of \<open>a\<close>, then those of \<open>b\<close>, over the columns of \<open>a\<close>
  followed by those only \<open>b\<close> has.
\<close>

definition concat_frames :: "gdf \<Rightarrow> gdf \<Rightarrow> string option \<Rightarrow> gdf" where
  "concat_frames a b c =
     \<lparr>columns = columns a @ filter (\<lambda>n. n \<notin> set (columns a)) (columns b),
      rows = rows a @ rows b,
      crs = c\<rparr>"

text \<open>
  The mask of line 293: the prepared boundary contains the centroid of the record's
  geometry.
\<close>

definition inside_mask :: "engine \<Rightarrow> geom \<Rightarrow> row \<Rightarrow> bool" where
  "inside_mask e prepared_buffer r = contains e prepared_buffer (centroid e (geometry r))"

text \<open>
  The local frames of \<^verbatim>\<open>clip_to_buffer\<close>, lines 296-305. A frame selected by a mask
  keeps the columns and the reference system of the frame it is selected from.
\<close>

definition fully_inside :: "engine \<Rightarrow> geom \<Rightarrow> gdf \<Rightarrow> gdf" where
  "fully_inside e prepared_buffer g = g\<lparr>rows := filter (inside_mask e prepared_buffer) (rows g)\<rparr>"

definition edge_candidates :: "engine \<Rightarrow> geom \<Rightarrow> gdf \<Rightarrow> gdf" where
  "edge_candidates e prepared_buffer g =
     g\<lparr>rows := filter (\<lambda>r. \<not> inside_mask e prepared_buffer r) (rows g)\<rparr>"

definition edge_intersects :: "engine \<Rightarrow> geom \<Rightarrow> gdf \<Rightarrow> gdf" where
  "edge_intersects e prepared_buffer g =
     (edge_candidates e prepared_buffer g)
       \<lparr>rows := filter (\<lambda>r. intersects e prepared_buffer (geometry r))
                  (rows (edge_candidates e prepared_buffer g))\<rparr>"

text \<open>Lines 287-288: the prepared boundary, built when the caller passes none.\<close>

definition prepared_of :: "geom \<Rightarrow> geom option \<Rightarrow> geom" where
  "prepared_of buffer_polygon prepared_buffer =
     (case prepared_buffer of None \<Rightarrow> prep buffer_polygon | Some p \<Rightarrow> p)"

text \<open>\<^verbatim>\<open>clip_to_buffer(gdf, buffer_polygon, prepared_buffer=None)\<close>, lines 278-337.\<close>

definition clip_to_buffer :: "engine \<Rightarrow> gdf \<Rightarrow> geom \<Rightarrow> geom option \<Rightarrow> string + gdf" where
  "clip_to_buffer e g buffer_polygon prepared_buffer =
     (if empty g then Inr g
      else
        let pb = prepared_of buffer_polygon prepared_buffer
        in if empty (edge_candidates e pb g) then Inr (fully_inside e pb g)
           else if empty (edge_intersects e pb g) then Inr (fully_inside e pb g)
           else
             case gpd_clip e (fix_invalid e (edge_intersects e pb g)) buffer_polygon of
               Inl err \<Rightarrow> Inl err
             | Inr clipped \<Rightarrow>
                 let clipped_edges =
                       (if \<not> empty clipped then extract_and_dropna e clipped else clipped)
                 in Inr (concat_frames (fully_inside e pb g) clipped_edges (crs g)))"

subsection \<open>Strings\<close>

text \<open>
  \<^verbatim>\<open>str.startswith\<close> and the decimal \<^verbatim>\<open>str(int(x))\<close> of an f-string.
  \<^verbatim>\<open>str.upper\<close> and \<^verbatim>\<open>str.strip\<close> of Python work on Unicode text and are
  parameters of the model (the record \<open>python\<close> below); \<open>upper\<close> and \<open>strip\<close> here
  are what they do on ASCII text and serve on concrete inputs only.
\<close>

definition upper_char :: "char \<Rightarrow> char" where
  "upper_char c =
     (if 97 \<le> (of_char c :: nat) \<and> (of_char c :: nat) \<le> 122
      then char_of ((of_char c :: nat) - 32) else c)"

definition upper :: "string \<Rightarrow> string" where
  "upper s = map upper_char s"

definition is_space :: "char \<Rightarrow> bool" where
  "is_space c = ((of_char c :: nat) \<in> {9, 10, 11, 12, 13, 28, 29, 30, 31, 32})"

definition strip :: "string \<Rightarrow> string" where
  "strip s = rev (dropWhile is_space (rev (dropWhile is_space s)))"

definition startswith :: "string \<Rightarrow> string \<Rightarrow> bool" where
  "startswith s prefix = (take (length prefix) s = prefix)"

definition digit_char :: "nat \<Rightarrow> char" where
  "digit_char d = char_of (48 + d)"

function str_nat :: "nat \<Rightarrow> string" where
  "str_nat n = (if n < 10 then [digit_char n] else str_nat (n div 10) @ [digit_char (n mod 10)])"
  by pat_completeness auto
termination
  by (relation "measure id") auto

definition str_int :: "int \<Rightarrow> string" where
  "str_int i = (if i < 0 then CHR ''-'' # str_nat (nat (- i)) else str_nat (nat i))"

text \<open>\<^verbatim>\<open>int(x)\<close> of a finite float: truncation towards zero.\<close>

definition int_of_float :: "real \<Rightarrow> int" where
  "int_of_float x = (if 0 \<le> x then \<lfloor>x\<rfloor> else \<lceil>x\<rceil>)"

subsection \<open>Configuration\<close>

record layer_config =
  ea_layer :: string
  filter_field :: "string option"
  filter_value :: "string option"
  description :: string
  filename :: string

definition ROFSW_LAYERS :: "(string \<times> layer_config) list" where
  "ROFSW_LAYERS =
     [(''risk_band_High'',
       \<lparr>ea_layer = ''rofsw'', filter_field = Some ''risk_band'', filter_value = Some ''High'',
        description = ''High risk - >=3.3% (1 in 30) chance per year'',
        filename = ''risk_band_High''\<rparr>),
      (''risk_band_Medium'',
       \<lparr>ea_layer = ''rofsw'', filter_field = Some ''risk_band'', filter_value = Some ''Medium'',
        description = ''Medium risk - <3.3% but >=1% (1 in 100) chance per year'',
        filename = ''risk_band_Medium''\<rparr>),
      (''risk_band_Low'',
       \<lparr>ea_layer = ''rofsw'', filter_field = Some ''risk_band'', filter_value = Some ''Low'',
        description = ''Low risk - <1% but >=0.1% (1 in 1000) chance per year'',
        filename = ''risk_band_Low''\<rparr>),
      (''depth_0.2m'',
       \<lparr>ea_layer = ''rofsw_0_2m_depth'', filter_field = None, filter_value = None,
        description = ''Flooding depth >= 0.2m'', filename = ''depth_0_2m''\<rparr>),
      (''depth_0.3m'',
       \<lparr>ea_layer = ''rofsw_0_3m_depth'', filter_field = None, filter_value = None,
        description = ''Flooding depth >= 0.3m'', filename = ''depth_0_3m''\<rparr>),
      (''depth_0.6m'',
       \<lparr>ea_layer = ''rofsw_0_6m_depth'', filter_field = None, filter_value = None,
        description = ''Flooding depth >= 0.6m'', filename = ''depth_0_6m''\<rparr>),
      (''depth_0.9m'',
       \<lparr>ea_layer = ''rofsw_0_9m_depth'', filter_field = None, filter_value = None,
        description = ''Flooding depth >= 0.9m'', filename = ''depth_0_9m''\<rparr>),
      (''depth_1.2m'',
       \<lparr>ea_layer = ''rofsw_1_2m_depth'', filter_field = None, filter_value = None,
        description = ''Flooding depth >= 1.2m'', filename = ''depth_1_2m''\<rparr>)]"

subsection \<open>ResultPackager\<close>

text \<open>
  The files of the job directory, by path relative to it. A shapefile with its
  companion files is one entry; the metadata document is the dictionary given to
  \<^verbatim>\<open>json.dump\<close>. Creating the directories, writing the metadata, zipping and removing
  the directory are taken to succeed; writing a shapefile (\<^verbatim>\<open>gdf.to_file\<close>) may raise.
\<close>

datatype jval = JStr string | JNum real

datatype file_content = Shapefile gdf | Json "(string \<times> jval) list"

type_synonym files = "(string \<times> file_content) list"

text \<open>
  \<^verbatim>\<open>save_as_shapefile(gdf, output_path, layer_name)\<close>, lines 340-347; \<open>to_file\<close> is
  \<^verbatim>\<open>gdf.to_file(filepath, driver="ESRI Shapefile")\<close>, \<open>Some msg\<close> when it raises.
\<close>

definition save_as_shapefile ::
  "(string \<Rightarrow> gdf \<Rightarrow> exn option) \<Rightarrow> files \<Rightarrow> gdf \<Rightarrow> string \<Rightarrow> string \<Rightarrow> exn + (bool \<times> files)" where
  "save_as_shapefile to_file fs g output_path layer_name =
     (if empty g then Inr (False, fs)
      else
        let filepath = output_path @ ''/'' @ layer_name @ ''.shp''
        in case to_file filepath g of
             Some err \<Rightarrow> Inl err
           | None \<Rightarrow> Inr (True, AList.update filepath (Shapefile g) fs))"

text \<open>\<^verbatim>\<open>create_zip(source_dir, zip_path)\<close>, lines 350-355: every file, by relative path.\<close>

definition create_zip :: "files \<Rightarrow> files" where
  "create_zip source_dir = source_dir"

subsection \<open>LayerOrchestrator\<close>

text \<open>
  The dictionary of one output layer in \<^verbatim>\<open>results["layers"]\<close>. A key that the source
  leaves out (\<^verbatim>\<open>error\<close>, \<^verbatim>\<open>filename\<close>) and a key it sets to \<^verbatim>\<open>None\<close> are both \<open>None\<close>.
\<close>

record layer_result =
  features :: nat
  status :: string
  result_description :: string
  error :: "string option"
  result_filename :: "string option"

definition no_data :: "layer_config \<Rightarrow> layer_result" where
  "no_data cfg =
     \<lparr>features = 0, status = ''no_data'', result_description = description cfg,
      error = None, result_filename = None\<rparr>"

definition saved_result :: "layer_config \<Rightarrow> gdf \<Rightarrow> bool \<Rightarrow> layer_result" where
  "saved_result cfg g saved =
     \<lparr>features = len g,
      status = (if saved then ''ok'' else ''empty_after_clip''),
      result_description = description cfg,
      error = None,
      result_filename = (if saved then Some (filename cfg @ ''.shp'') else None)\<rparr>"

definition error_result :: "layer_config \<Rightarrow> exn \<Rightarrow> layer_result" where
  "error_result cfg e =
     \<lparr>features = 0, status = ''error'', result_description = description cfg,
      error = Some e, result_filename = None\<rparr>"

text \<open>
  What the source uses of Python's strings and of pandas: \<^verbatim>\<open>str.upper\<close>,
  \<^verbatim>\<open>str.strip\<close>, and whether the \<^verbatim>\<open>.str\<close> accessor accepts a column with the given
  values (it raises \<^verbatim>\<open>AttributeError\<close> on a column that is not of strings, a column of
  numbers for one).
\<close>

record python =
  str_upper :: "string \<Rightarrow> string"
  str_strip :: "string \<Rightarrow> string"
  str_accessor :: "val list \<Rightarrow> bool"

text \<open>
  \<^verbatim>\<open>gdf[gdf[field].str.upper() == value.upper()]\<close>, lines 376 and 496. Where the
  accessor accepts the column, \<^verbatim>\<open>.str.upper()\<close> gives a missing value for every entry
  that is not a string, and a missing value equals nothing. \<^verbatim>\<open>value.upper()\<close> raises
  when the value is \<^verbatim>\<open>None\<close>.
\<close>

definition cell :: "row \<Rightarrow> string \<Rightarrow> val" where
  "cell r field = (case map_of (attrs r) field of None \<Rightarrow> Null | Some v \<Rightarrow> v)"

definition is_str :: "val \<Rightarrow> bool" where
  "is_str v = (case v of Str _ \<Rightarrow> True | _ \<Rightarrow> False)"

definition column :: "gdf \<Rightarrow> string \<Rightarrow> val list" where
  "column g field = map (\<lambda>r. cell r field) (rows g)"

definition matches :: "python \<Rightarrow> string \<Rightarrow> string \<Rightarrow> row \<Rightarrow> bool" where
  "matches py field v r =
     (case cell r field of Str s \<Rightarrow> str_upper py s = str_upper py v | _ \<Rightarrow> False)"

definition attribute_filter :: "python \<Rightarrow> string \<Rightarrow> string option \<Rightarrow> gdf \<Rightarrow> exn + gdf" where
  "attribute_filter py field v g =
     (if \<not> str_accessor py (column g field)
      then Inl ''Can only use .str accessor with string values!''
      else case v of
             None \<Rightarrow> Inl (quoted ''NoneType'' @ '' object has no attribute '' @ quoted ''upper'')
           | Some s \<Rightarrow> Inr (g\<lparr>rows := filter (matches py field s) (rows g)\<rparr>))"

text \<open>
  The body of the \<^verbatim>\<open>try\<close> of \<^verbatim>\<open>_process_single_layer\<close>, lines 362-394, and the function
  with its \<^verbatim>\<open>except\<close>, lines 358-403. The files are those of the job directory before
  and after.
\<close>

definition process_single_layer_body ::
  "python \<Rightarrow> engine \<Rightarrow> (string \<Rightarrow> gdf \<Rightarrow> exn option) \<Rightarrow> layer_config \<Rightarrow> gdf \<Rightarrow> geom \<Rightarrow> geom \<Rightarrow> string \<Rightarrow> files
     \<Rightarrow> exn + (layer_result \<times> files)" where
  "process_single_layer_body py e to_file layer_config raw_gdf buffer_poly prepared_buffer shp_dir fs =
     (if empty raw_gdf then Inr (no_data layer_config, fs)
      else
        case (case filter_field layer_config of
                None \<Rightarrow> Inr raw_gdf
              | Some field \<Rightarrow>
                  if field \<noteq> [] \<and> field \<in> set (columns raw_gdf)
                  then attribute_filter py field (filter_value layer_config) raw_gdf
                  else Inr raw_gdf) of
          Inl err \<Rightarrow> Inl err
        | Inr g \<Rightarrow>
            if empty g then Inr (no_data layer_config, fs)
            else
              case clip_to_buffer e g buffer_poly (Some prepared_buffer) of
                Inl err \<Rightarrow> Inl err
              | Inr gdf_clipped \<Rightarrow>
                  (case save_as_shapefile to_file fs gdf_clipped shp_dir (filename layer_config) of
                     Inl err \<Rightarrow> Inl err
                   | Inr (saved, fs') \<Rightarrow> Inr (saved_result layer_config gdf_clipped saved, fs')))"

definition process_single_layer ::
  "python \<Rightarrow> engine \<Rightarrow> (string \<Rightarrow> gdf \<Rightarrow> exn option) \<Rightarrow> string \<Rightarrow> layer_config \<Rightarrow> gdf \<Rightarrow> geom \<Rightarrow> geom \<Rightarrow> string
     \<Rightarrow> files \<Rightarrow> (string \<times> layer_result) \<times> files" where
  "process_single_layer py e to_file layer_key layer_config raw_gdf buffer_poly prepared_buffer shp_dir fs =
     (case process_single_layer_body py e to_file layer_config raw_gdf buffer_poly prepared_buffer
             shp_dir fs of
        Inr (r, fs') \<Rightarrow> ((layer_key, r), fs')
      | Inl err \<Rightarrow> ((layer_key, error_result layer_config err), fs))"

subsection \<open>FlowController\<close>

text \<open>The dictionary that \<^verbatim>\<open>geocode_postcode\<close> returns.\<close>

record location =
  loc_postcode :: string
  loc_lat :: real
  loc_lng :: real
  loc_easting :: real
  loc_northing :: real
  loc_admin_district :: string
  loc_region :: string

text \<open>
  The dictionary \<^verbatim>\<open>results\<close> of \<^verbatim>\<open>process_postcode\<close>. The three keys that are set at
  the end are \<open>None\<close> until then.
\<close>

record job_result =
  postcode :: string
  easting :: real
  northing :: real
  lat :: real
  lng :: real
  admin_district :: string
  radius :: real
  bbox_bng :: bbox
  bbox_wgs84 :: bbox
  layers :: "(string \<times> layer_result) list"
  job_name :: string
  errors :: "string list"
  zip_file :: "string option"
  zip_filename :: "string option"
  total_features :: "nat option"

text \<open>\<^verbatim>\<open>results["layers"][layer_key] = layer_result\<close>.\<close>

definition set_layer :: "string \<Rightarrow> layer_result \<Rightarrow> job_result \<Rightarrow> job_result" where
  "set_layer layer_key layer_result results =
     results\<lparr>layers := AList.update layer_key layer_result (layers results)\<rparr>"

text \<open>
  Step 4, lines 453-472: every distinct remote layer is fetched with the default
  budget of 3 attempts; a fetch that raises is logged and its data is the empty frame.
  The fetches run on a thread pool in the source; each result is stored under its own
  name, so the order of completion does not show.
\<close>

definition unique_layers :: "string list" where
  "unique_layers = remdups (map (\<lambda>(k, cfg). ea_layer cfg) ROFSW_LAYERS)"

definition fetch_layer :: "remote \<Rightarrow> bbox \<Rightarrow> string \<Rightarrow> gdf" where
  "fetch_layer w bbox name =
     (case snd (download_ea_layer w name bbox 3) of
        Inl err \<Rightarrow> GeoDataFrame
      | Inr g \<Rightarrow> g)"

definition fetch_all :: "remote \<Rightarrow> bbox \<Rightarrow> (string \<times> gdf) list" where
  "fetch_all w bbox = map (\<lambda>name. (name, fetch_layer w bbox name)) unique_layers"

text \<open>\<^verbatim>\<open>raw_data.get(name, gpd.GeoDataFrame())\<close>.\<close>

definition raw_get :: "(string \<times> gdf) list \<Rightarrow> string \<Rightarrow> gdf" where
  "raw_get raw_data name = (case map_of raw_data name of None \<Rightarrow> GeoDataFrame | Some g \<Rightarrow> g)"

text \<open>
  Step 5, lines 476-480: the source layer of the risk bands is clipped once; \<open>None\<close>
  when it is empty. An exception of the clip is not caught here.
\<close>

definition clip_rofsw :: "engine \<Rightarrow> (string \<times> gdf) list \<Rightarrow> geom \<Rightarrow> geom \<Rightarrow> exn + gdf option" where
  "clip_rofsw e raw_data buffer_poly prepared_buffer =
     (let rofsw_gdf = raw_get raw_data ''rofsw''
      in if \<not> empty rofsw_gdf then
           (case clip_to_buffer e rofsw_gdf buffer_poly (Some prepared_buffer) of
              Inl err \<Rightarrow> Inl err
            | Inr c \<Rightarrow> Inr (Some c))
         else Inr None)"

text \<open>
  One round of the loop of lines 483-507, and the loop. It has the clipped frame and
  the writer, not the engine. A key missing from \<open>ROFSW_LAYERS\<close> raises \<^verbatim>\<open>KeyError\<close>.
\<close>

definition risk_band_filtered :: "python \<Rightarrow> layer_config \<Rightarrow> gdf \<Rightarrow> exn + gdf" where
  "risk_band_filtered py cfg rofsw_clipped =
     (case filter_field cfg of
        Some field \<Rightarrow>
          if field \<in> set (columns rofsw_clipped)
          then attribute_filter py field (filter_value cfg) rofsw_clipped
          else Inr rofsw_clipped
      | None \<Rightarrow> Inr rofsw_clipped)"

definition risk_band_step ::
  "python \<Rightarrow> (string \<Rightarrow> gdf \<Rightarrow> exn option) \<Rightarrow> gdf option \<Rightarrow> string \<Rightarrow> string \<Rightarrow> job_result \<times> files
     \<Rightarrow> exn + (job_result \<times> files)" where
  "risk_band_step py to_file rofsw_clipped shp_dir layer_key st =
     (case st of (results, fs) \<Rightarrow>
      case map_of ROFSW_LAYERS layer_key of
        None \<Rightarrow> Inl (quoted layer_key)
      | Some cfg \<Rightarrow>
          (case rofsw_clipped of
             None \<Rightarrow> Inr (set_layer layer_key (no_data cfg) results, fs)
           | Some c \<Rightarrow>
               if empty c then Inr (set_layer layer_key (no_data cfg) results, fs)
               else
                 case risk_band_filtered py cfg c of
                   Inl err \<Rightarrow> Inl err
                 | Inr filtered \<Rightarrow>
                     (case save_as_shapefile to_file fs filtered shp_dir (filename cfg) of
                        Inl err \<Rightarrow> Inl err
                      | Inr (saved, fs') \<Rightarrow>
                          Inr (set_layer layer_key (saved_result cfg filtered saved) results, fs'))))"

fun risk_bands ::
  "python \<Rightarrow> (string \<Rightarrow> gdf \<Rightarrow> exn option) \<Rightarrow> gdf option \<Rightarrow> string \<Rightarrow> string list \<Rightarrow> job_result \<times> files
     \<Rightarrow> exn + (job_result \<times> files)" where
  "risk_bands py to_file rofsw_clipped shp_dir [] st = Inr st"
| "risk_bands py to_file rofsw_clipped shp_dir (layer_key # rest) st =
     (case risk_band_step py to_file rofsw_clipped shp_dir layer_key st of
        Inl err \<Rightarrow> Inl err
      | Inr st' \<Rightarrow> risk_bands py to_file rofsw_clipped shp_dir rest st')"

text \<open>
  Step 6, lines 511-521: the depth layers, in the order of \<open>ROFSW_LAYERS\<close>.
  \<^verbatim>\<open>layer_result.get("error")\<close> holds for a message that is not empty.
\<close>

definition depth_layers :: "(string \<times> layer_config) list" where
  "depth_layers = filter (\<lambda>(k, v). startswith k ''depth_'') ROFSW_LAYERS"

definition record_error :: "string \<Rightarrow> layer_result \<Rightarrow> job_result \<Rightarrow> job_result" where
  "record_error layer_key layer_result results =
     (case error layer_result of
        Some msg \<Rightarrow>
          if msg \<noteq> [] then results\<lparr>errors := errors results @ [layer_key @ '': '' @ msg]\<rparr>
          else results
      | None \<Rightarrow> results)"

fun depth_loop ::
  "python \<Rightarrow> engine \<Rightarrow> (string \<Rightarrow> gdf \<Rightarrow> exn option) \<Rightarrow> (string \<times> gdf) list \<Rightarrow> geom \<Rightarrow> geom \<Rightarrow> string
     \<Rightarrow> (string \<times> layer_config) list \<Rightarrow> job_result \<times> files \<Rightarrow> job_result \<times> files" where
  "depth_loop py e to_file raw_data buffer_poly prepared_buffer shp_dir [] st = st"
| "depth_loop py e to_file raw_data buffer_poly prepared_buffer shp_dir ((lk, lc) # rest) st =
     (case st of (results, fs) \<Rightarrow>
      case process_single_layer py e to_file lk lc (raw_get raw_data (ea_layer lc))
             buffer_poly prepared_buffer shp_dir fs of
        ((layer_key, layer_result), fs') \<Rightarrow>
          depth_loop py e to_file raw_data buffer_poly prepared_buffer shp_dir rest
            (record_error layer_key layer_result (set_layer layer_key layer_result results), fs'))"

text \<open>Step 7, lines 526-537: the search boundary as a layer of its own.\<close>

definition buffer_filename :: "real \<Rightarrow> string" where
  "buffer_filename r = ''search_buffer_'' @ str_int (int_of_float r) @ ''m''"

definition buffer_gdf :: "location \<Rightarrow> real \<Rightarrow> geom \<Rightarrow> gdf" where
  "buffer_gdf location r buffer_poly =
     \<lparr>columns = [''postcode'', ''radius_m''],
      rows = [\<lparr>geometry = buffer_poly,
               attrs = [(''postcode'', Str (loc_postcode location)), (''radius_m'', Num r)]\<rparr>],
      crs = Some CRS_BNG\<rparr>"

definition search_buffer_result :: "location \<Rightarrow> real \<Rightarrow> layer_result" where
  "search_buffer_result location r =
     \<lparr>features = 1,
      status = ''ok'',
      result_description = str_int (int_of_float r) @ ''m buffer around '' @ loc_postcode location,
      error = None,
      result_filename = Some (buffer_filename r @ ''.shp'')\<rparr>"

definition save_buffer ::
  "(string \<Rightarrow> gdf \<Rightarrow> exn option) \<Rightarrow> location \<Rightarrow> real \<Rightarrow> geom \<Rightarrow> string \<Rightarrow> job_result \<times> files
     \<Rightarrow> exn + (job_result \<times> files)" where
  "save_buffer to_file location r buffer_poly shp_dir st =
     (case st of (results, fs) \<Rightarrow>
      case save_as_shapefile to_file fs (buffer_gdf location r buffer_poly) shp_dir (buffer_filename r) of
        Inl err \<Rightarrow> Inl err
      | Inr (saved, fs') \<Rightarrow>
          Inr (set_layer ''search_buffer'' (search_buffer_result location r) results, fs'))"

text \<open>
  Everything outside the process: the geocoder (\<^verbatim>\<open>geocode_postcode\<close>, the thin
  collaborator of the pipeline, with the exception it raises), the string operations
  of Python and pandas, the rounding of double
  arithmetic, the pyproj transformer,
  the geometry engine, the remote service, the shapefile writer, the two readings of the
  clock and the output directory.
\<close>

record world =
  geocode :: "string \<Rightarrow> exn + location"
  runtime :: python
  double :: "real \<Rightarrow> real"
  transform :: "real \<Rightarrow> real \<Rightarrow> point"
  shapely :: engine
  ea :: remote
  to_file :: "string \<Rightarrow> gdf \<Rightarrow> exn option"
  strftime_now :: string
  isoformat_now :: string
  OUTPUT_DIR :: string

text \<open>Step 8, lines 540-558: the metadata document.\<close>

definition metadata :: "world \<Rightarrow> location \<Rightarrow> real \<Rightarrow> (string \<times> jval) list" where
  "metadata w location r =
     [(''postcode'', JStr (loc_postcode location)),
      (''easting'', JNum (loc_easting location)),
      (''northing'', JNum (loc_northing location)),
      (''lat'', JNum (loc_lat location)),
      (''lng'', JNum (loc_lng location)),
      (''radius_m'', JNum r),
      (''crs'', JStr CRS_BNG),
      (''generated'', JStr (isoformat_now w)),
      (''source'', JStr ''Environment Agency - NaFRA2 Risk of Flooding from Surface Water (RoFSW)''),
      (''licence'', JStr ''Open Government Licence v3.0''),
      (''attribution'',
       JStr ''Contains Environment Agency information (c) Environment Agency and/or database right'')]"

text \<open>Lines 568-571: the sum of the feature counts of all entries of the layers.\<close>

definition sum_features :: "(string \<times> layer_result) list \<Rightarrow> nat" where
  "sum_features ls = sum_list (map (\<lambda>(k, layer). features layer) ls)"

text \<open>Steps 8 and 9, lines 540-571: metadata, archive, names and total.\<close>

definition package :: "world \<Rightarrow> location \<Rightarrow> real \<Rightarrow> job_result \<times> files \<Rightarrow> job_result \<times> files" where
  "package w location r st =
     (case st of (results, fs) \<Rightarrow>
        let job_dir = AList.update ''metadata.json'' (Json (metadata w location r)) fs;
            archive = create_zip job_dir;
            results1 = results\<lparr>zip_file := Some (OUTPUT_DIR w @ ''/'' @ job_name results @ ''.zip''),
                               zip_filename := Some (job_name results @ ''.zip'')\<rparr>;
            results2 = results1\<lparr>total_features := Some (sum_features (layers results1))\<rparr>
        in (results2, archive))"

text \<open>Step 3, lines 431-451.\<close>

definition clean_postcode :: "python \<Rightarrow> string \<Rightarrow> string" where
  "clean_postcode py s = filter (\<lambda>c. c \<noteq> CHR '' '') (str_upper py (str_strip py s))"

definition initial_results :: "world \<Rightarrow> string \<Rightarrow> location \<Rightarrow> real \<Rightarrow> bbox \<Rightarrow> bbox \<Rightarrow> job_result" where
  "initial_results w pc location r bng wgs84 =
     \<lparr>postcode = loc_postcode location,
      easting = loc_easting location,
      northing = loc_northing location,
      lat = loc_lat location,
      lng = loc_lng location,
      admin_district = loc_admin_district location,
      radius = r,
      bbox_bng = bng,
      bbox_wgs84 = wgs84,
      layers = [],
      job_name = ''RoFSW_'' @ clean_postcode (runtime w) pc @ ''_'' @ strftime_now w,
      errors = [],
      zip_file = None,
      zip_filename = None,
      total_features = None\<rparr>"

text \<open>
  \<^verbatim>\<open>process_postcode(postcode, radius)\<close>, lines 406-575: the result record and the
  archive, or the exception that leaves the function.
\<close>

definition DEFAULT_RADIUS :: real where
  "DEFAULT_RADIUS = 500"

definition process_postcode :: "world \<Rightarrow> string \<Rightarrow> real \<Rightarrow> exn + (job_result \<times> files)" where
  "process_postcode w pc r =
     (case geocode w pc of
        Inl err \<Rightarrow> Inl err
      | Inr location \<Rightarrow>
          (case create_buffer_bbox (double w) (transform w) (loc_easting location) (loc_northing location) r of
             (bng, wgs84) \<Rightarrow>
               let buffer_poly =
                     create_buffer_polygon (shapely w) (loc_easting location) (loc_northing location) r;
                   prepared_buffer = prep buffer_poly;
                   shp_dir = ''shapefiles'';
                   results = initial_results w pc location r bng wgs84;
                   raw_data = fetch_all (ea w) wgs84
               in case clip_rofsw (shapely w) raw_data buffer_poly prepared_buffer of
                    Inl err \<Rightarrow> Inl err
                  | Inr rofsw_clipped \<Rightarrow>
                      (case risk_bands (runtime w) (to_file w) rofsw_clipped shp_dir
                              [''risk_band_High'', ''risk_band_Medium'', ''risk_band_Low'']
                              (results, []) of
                         Inl err \<Rightarrow> Inl err
                       | Inr st1 \<Rightarrow>
                           (case save_buffer (to_file w) location r buffer_poly shp_dir
                                   (depth_loop (runtime w) (shapely w) (to_file w) raw_data buffer_poly
                                      prepared_buffer shp_dir depth_layers st1) of
                              Inl err \<Rightarrow> Inl err
                            | Inr st3 \<Rightarrow> Inr (package w location r st3)))))"

subsection \<open>Exact geometry of convex rings, for concrete inputs\<close>

text \<open>
  An engine that computes, to run the model on concrete inputs. It is not shapely: it
  is the exact geometry of convex polygons with rational vertices, other geometries are
  read through their list of vertices, and its circular buffer is a polygon of twelve
  sides (shapely's has 64) whose vertices lie on the circle in the directions of the
  Pythagorean triple (3, 4, 5), listed clockwise from the east.
\<close>

fun verts :: "geom \<Rightarrow> point list" where
  "verts (Point p) = [p]"
| "verts (LineString ps) = ps"
| "verts (Polygon ps) = ps"
| "verts (MultiPoint ps) = ps"
| "verts (MultiLineString pss) = concat pss"
| "verts (MultiPolygon pss) = concat pss"
| "verts (GeometryCollection gs) = concat (map verts gs)"

text \<open>\<open>cross a b p\<close> is positive when \<open>p\<close> lies to the left of the line from \<open>a\<close> to \<open>b\<close>.\<close>

definition cross :: "point \<Rightarrow> point \<Rightarrow> point \<Rightarrow> real" where
  "cross a b p = (fst b - fst a) * (snd p - snd a) - (snd b - snd a) * (fst p - fst a)"

text \<open>The sides of a ring: each vertex with its successor, the last with the first.\<close>

definition sides :: "point list \<Rightarrow> (point \<times> point) list" where
  "sides ring = zip ring (rotate1 ring)"

text \<open>Twice the signed area (positive for a counterclockwise ring), by the shoelace sum.\<close>

definition area2 :: "point list \<Rightarrow> real" where
  "area2 ring = sum_list (map (\<lambda>(a, b). fst a * snd b - fst b * snd a) (sides ring))"

definition ccw :: "point list \<Rightarrow> point list" where
  "ccw ring = (if area2 ring < 0 then rev ring else ring)"

text \<open>The centroid of the area of a ring; of its vertices when the area is zero.\<close>

definition ring_centroid :: "point list \<Rightarrow> point" where
  "ring_centroid ring =
     (if area2 ring = 0 then
        (sum_list (map fst ring) / real (length ring), sum_list (map snd ring) / real (length ring))
      else
        (sum_list (map (\<lambda>(a, b). (fst a + fst b) * (fst a * snd b - fst b * snd a)) (sides ring))
           / (3 * area2 ring),
         sum_list (map (\<lambda>(a, b). (snd a + snd b) * (fst a * snd b - fst b * snd a)) (sides ring))
           / (3 * area2 ring)))"

text \<open>A point in the interior of a convex ring, and a point strictly outside it.\<close>

definition convex_contains :: "point list \<Rightarrow> point \<Rightarrow> bool" where
  "convex_contains ring p = (ring \<noteq> [] \<and> list_all (\<lambda>(a, b). 0 < cross a b p) (sides (ccw ring)))"


text \<open>
  Two convex rings share a point unless a side of one of them has the other strictly
  on its outer side.
\<close>

definition separates :: "point list \<Rightarrow> point list \<Rightarrow> bool" where
  "separates ring other =
     list_ex (\<lambda>(a, b). list_all (\<lambda>p. cross a b p < 0) other) (sides (ccw ring))"

definition convex_intersects :: "point list \<Rightarrow> point list \<Rightarrow> bool" where
  "convex_intersects ring other =
     (ring \<noteq> [] \<and> other \<noteq> [] \<and> \<not> separates ring other \<and> \<not> separates other ring)"

text \<open>
  The intersection of a convex ring with a ring, one side of the boundary after the
  other: a vertex on the inner side is kept, and a side of the ring that crosses the
  line contributes the crossing point.
\<close>

definition cut :: "point \<Rightarrow> point \<Rightarrow> point \<Rightarrow> point \<Rightarrow> point" where
  "cut a b p q =
     (let t = cross a b p / (cross a b p - cross a b q)
      in (fst p + t * (fst q - fst p), snd p + t * (snd q - snd p)))"

definition clip_half :: "point \<Rightarrow> point \<Rightarrow> point list \<Rightarrow> point list" where
  "clip_half a b ring =
     concat (map (\<lambda>(p, q).
        (if 0 \<le> cross a b p then [p] else []) @
        (if (0 < cross a b p \<and> cross a b q < 0) \<or> (cross a b p < 0 \<and> 0 < cross a b q)
         then [cut a b p q] else [])) (sides ring))"

definition clip_ring :: "point list \<Rightarrow> point list \<Rightarrow> point list" where
  "clip_ring boundary ring = foldl (\<lambda>s (a, b). clip_half a b s) ring (sides (ccw boundary))"

text \<open>The geometry of a clipped ring: a polygon when it has an area.\<close>

definition geom_of_ring :: "point list \<Rightarrow> geom" where
  "geom_of_ring ring =
     (if area2 ring \<noteq> 0 then Polygon ring
      else case remdups ring of [p] \<Rightarrow> Point p | ps \<Rightarrow> LineString ps)"

definition convex_clip :: "gdf \<Rightarrow> geom \<Rightarrow> string + gdf" where
  "convex_clip g boundary =
     Inr (g\<lparr>rows := map (\<lambda>r. r\<lparr>geometry := geom_of_ring (clip_ring (verts boundary) (verts (geometry r)))\<rparr>)
                      (filter (\<lambda>r. convex_intersects (verts boundary) (verts (geometry r))) (rows g))\<rparr>)"

definition circle12 :: "point \<Rightarrow> real \<Rightarrow> geom" where
  "circle12 c r =
     Polygon (map (\<lambda>(dx, dy). (fst c + r * dx / 5, snd c + r * dy / 5))
       [(5, 0), (4, -3), (3, -4), (0, -5), (-3, -4), (-4, -3),
        (-5, 0), (-4, 3), (-3, 4), (0, 5), (3, 4), (4, 3)])"

definition convex_engine :: engine where
  "convex_engine =
     \<lparr>buffer = circle12,
      centroid = (\<lambda>g. Point (ring_centroid (verts g))),
      contains = (\<lambda>b g. list_all (convex_contains (verts b)) (verts g)),
      intersects = (\<lambda>b g. convex_intersects (verts b) (verts g)),
      is_valid = (\<lambda>g. True),
      make_valid = (\<lambda>g. g),
      gpd_clip = convex_clip,
      unary_union = (\<lambda>gs. MultiPolygon (map verts gs))\<rparr>"

subsection \<open>Sample inputs\<close>

text \<open>
  A job at the projected point (530000, 180000) with radius 500 and the engine above.
  The dataset that the sample service returns holds a two-part geometry, a cell across
  the easternmost vertex of the boundary, a cell far outside it and a cell inside it.
\<close>

definition square :: "real \<Rightarrow> real \<Rightarrow> real \<Rightarrow> geom" where
  "square x y s = Polygon [(x, y), (x + s, y), (x + s, y + s), (x, y + s)]"

definition sample_boundary :: geom where
  "sample_boundary = create_buffer_polygon convex_engine 530000 180000 500"

text \<open>The vertices of that boundary: twelve points of the circle of radius 500.\<close>

definition sample_ring :: "point list" where
  "sample_ring =
     [(530500, 180000), (530400, 179700), (530300, 179600), (530000, 179500),
      (529700, 179600), (529600, 179700), (529500, 180000), (529600, 180300),
      (529700, 180400), (530000, 180500), (530300, 180400), (530400, 180300)]"

definition sample_dataset :: gdf where
  "sample_dataset =
     \<lparr>columns = [''risk_band''],
      rows =
        [\<lparr>geometry = MultiPolygon [verts (square 530010 180010 2), verts (square 530020 180010 2)],
          attrs = [(''risk_band'', Str ''High'')]\<rparr>,
         \<lparr>geometry = square 530499 179999 2, attrs = [(''risk_band'', Str ''medium'')]\<rparr>,
         \<lparr>geometry = square 530600 180010 2, attrs = [(''risk_band'', Str ''Low'')]\<rparr>,
         \<lparr>geometry = square 529990 180050 2, attrs = [(''risk_band'', Str ''LOW'')]\<rparr>],
      crs = Some ''EPSG:27700''\<rparr>"

definition sample_exploded :: gdf where
  "sample_exploded =
     \<lparr>columns = [''risk_band''],
      rows =
        [\<lparr>geometry = square 530010 180010 2, attrs = [(''risk_band'', Str ''High'')]\<rparr>,
         \<lparr>geometry = square 530020 180010 2, attrs = [(''risk_band'', Str ''High'')]\<rparr>,
         \<lparr>geometry = square 530499 179999 2, attrs = [(''risk_band'', Str ''medium'')]\<rparr>,
         \<lparr>geometry = square 530600 180010 2, attrs = [(''risk_band'', Str ''Low'')]\<rparr>,
         \<lparr>geometry = square 529990 180050 2, attrs = [(''risk_band'', Str ''LOW'')]\<rparr>],
      crs = Some ''EPSG:27700''\<rparr>"

definition sample_clipped :: gdf where
  "sample_clipped =
     \<lparr>columns = [''risk_band''],
      rows =
        [\<lparr>geometry = square 530010 180010 2, attrs = [(''risk_band'', Str ''High'')]\<rparr>,
         \<lparr>geometry = square 530020 180010 2, attrs = [(''risk_band'', Str ''High'')]\<rparr>,
         \<lparr>geometry = square 529990 180050 2, attrs = [(''risk_band'', Str ''LOW'')]\<rparr>,
         \<lparr>geometry = Polygon [(530499, 179999), (1591499 / 3, 179999), (530500, 180000),
                               (1591499 / 3, 180001), (530499, 180001)],
          attrs = [(''risk_band'', Str ''medium'')]\<rparr>],
      crs = Some ''EPSG:27700''\<rparr>"

definition sample_location :: location where
  "sample_location =
     \<lparr>loc_postcode = ''SW1A 1AA'', loc_lat = 51.5, loc_lng = - 0.14,
      loc_easting = 530000, loc_northing = 180000,
      loc_admin_district = ''Westminster'', loc_region = ''London''\<rparr>"

text \<open>
  Services: one that answers every request with an archive of the sample
  dataset, one that does so except for the layer \<open>rofsw_0_2m_depth\<close>, whose every
  request fails, and one that answers every request with zero bytes.
\<close>

definition sample_remote :: "(string \<Rightarrow> point list \<Rightarrow> nat \<Rightarrow> http_result) \<Rightarrow> remote" where
  "sample_remote p =
     \<lparr>post = p,
      zip_namelist = (\<lambda>content. Inr [''rofsw.dbf'', ''rofsw.shp'']),
      read_file = (\<lambda>content name. Inr sample_dataset),
      reproject = (\<lambda>source target pt. pt)\<rparr>"

definition post_ok :: "string \<Rightarrow> point list \<Rightarrow> nat \<Rightarrow> http_result" where
  "post_ok url polygon n = HttpResponse (replicate 120 (CHR ''z''))"

definition post_one_down :: "string \<Rightarrow> point list \<Rightarrow> nat \<Rightarrow> http_result" where
  "post_one_down url polygon n =
     (if url = query_url ''8aa5d9cb-2a54-4480-b7d6-0aaef9efa576''
      then HttpError ''503 Server Error'' else post_ok url polygon n)"

definition post_tiny :: "string \<Rightarrow> point list \<Rightarrow> nat \<Rightarrow> http_result" where
  "post_tiny url polygon n = HttpResponse []"

text \<open>A service whose first request fails and whose later ones answer with zero bytes.\<close>

definition post_flaky :: "string \<Rightarrow> point list \<Rightarrow> nat \<Rightarrow> http_result" where
  "post_flaky url polygon n =
     (if n < 2 then HttpError ''Connection reset by peer'' else HttpResponse [])"

text \<open>
  Python's string operations on ASCII text, and an accessor that accepts a column
  with a string in it or with nothing but missing values.
\<close>

definition ascii_python :: python where
  "ascii_python =
     \<lparr>str_upper = upper,
      str_strip = strip,
      str_accessor = (\<lambda>vs. list_ex is_str vs \<or> list_all (\<lambda>v. v = Null) vs)\<rparr>"

definition sample_world :: "(string \<Rightarrow> point list \<Rightarrow> nat \<Rightarrow> http_result) \<Rightarrow> world" where
  "sample_world p =
     \<lparr>geocode = (\<lambda>pc. if pc = ''SW1A 1AA'' then Inr sample_location
                        else Inl ''Postcode not found''),
      runtime = ascii_python,
      double = round_to_grid,
      transform = (\<lambda>x y. (x / 100000, y / 100000)),
      shapely = convex_engine,
      ea = sample_remote p,
      to_file = (\<lambda>path g. None),
      strftime_now = ''20250101_120000'',
      isoformat_now = ''2025-01-01T12:00:00'',
      OUTPUT_DIR = ''output''\<rparr>"

section \<open>Theorems\<close>

subsection \<open>The two phases of the clip\<close>






subsection \<open>The retry loop and the parsed dataset\<close>

lemma attempts_3: "[1..<3 + 1] = [1, 2, 3::nat]"
  by code_simp

lemma retry_first: 
  "send 1 = HttpResponse c \<Longrightarrow> retry send 3 [1..<3 + 1] = ([Post 1], Inr (Some c))"
  unfolding attempts_3 by simp

lemma retry_second: 
  "send 1 = HttpError e1 \<Longrightarrow> send 2 = HttpResponse c \<Longrightarrow> retry send 3 [1..<3 + 1] = ([Post 1, Sleep 3, Post 2], Inr (Some c))"
  unfolding attempts_3 by simp

lemma retry_third: 
  "send 1 = HttpError e1 \<Longrightarrow> send 2 = HttpError e2 \<Longrightarrow> send 3 = HttpResponse c \<Longrightarrow> retry send 3 [1..<3 + 1] = ([Post 1, Sleep 3, Post 2, Sleep 6, Post 3], Inr (Some c))"
  unfolding attempts_3 by simp

lemma retry_exhausted: 
  "send 1 = HttpError e1 \<Longrightarrow> send 2 = HttpError e2 \<Longrightarrow> send 3 = HttpError e3 \<Longrightarrow> retry send 3 [1..<3 + 1] = ([Post 1, Sleep 3, Post 2, Sleep 6, Post 3], Inl e3)"
  unfolding attempts_3 by simp

lemma retry_small:
  assumes "1 \<le> k" "k \<le> 3" "\<forall>j. 1 \<le> j \<and> j < k \<longrightarrow> (\<exists>e. send j = HttpError e)" "send k = HttpResponse c"
  shows "snd (retry send 3 [1..<3 + 1]) = Inr (Some c)"
proof -
  from assms(1,2) consider "k = 1" | "k = 2" | "k = 3" by linarith
  then show ?thesis
  proof cases
    case 1 with assms(4) have "send 1 = HttpResponse c" by simp
    from retry_first[of send c, OF this] show ?thesis by simp
  next
    case 2
    with assms(3) obtain e1 where "send 1 = HttpError e1" by force
    moreover from 2 assms(4) have "send 2 = HttpResponse c" by simp
    ultimately show ?thesis using retry_second by fastforce
  next
    case 3
    with assms(3) obtain e1 e2 where "send 1 = HttpError e1" "send 2 = HttpError e2" 
    proof -
      from assms(3) 3 have "\<exists>e. send 1 = HttpError e" "\<exists>e. send 2 = HttpError e" by simp_all
      then show ?thesis using that by blast
    qed
    moreover from 3 assms(4) have "send 3 = HttpResponse c" by simp
    ultimately show ?thesis using retry_third by fastforce
  qed
qed






subsection \<open>The layers of a job\<close>

lemma layers_set_layer: "layers (set_layer k v res) = AList.update k v (layers res)"
  by (simp add: set_layer_def)

lemma errors_set_layer: "errors (set_layer k v res) = errors res"
  by (simp add: set_layer_def)

lemma map_of_set_layer:
  "map_of (layers (set_layer k v res)) k' = (if k' = k then Some v else map_of (layers res) k')"
  by (simp add: set_layer_def update_conv')

lemma layers_record_error: "layers (record_error k l res) = layers res"
  by (simp add: record_error_def split: option.splits)

lemma psl_key: "fst (fst (process_single_layer py e t k cfg raw b p d fs)) = k"
  by (simp add: process_single_layer_def split: sum.splits prod.splits)

lemma save_indep:
  "map_sum id fst (save_as_shapefile t fs g d n) = map_sum id fst (save_as_shapefile t fs' g d n)"
  by (simp add: save_as_shapefile_def Let_def split: option.splits)

lemma psl_body_indep:
  "map_sum id fst (process_single_layer_body py e t cfg raw b p d fs)
   = map_sum id fst (process_single_layer_body py e t cfg raw b p d fs')"
proof -
  have s: "\<And>g. map_sum id fst (save_as_shapefile t fs g d (filename cfg))
              = map_sum id fst (save_as_shapefile t fs' g d (filename cfg))"
    by (rule save_indep)
  show ?thesis
    unfolding process_single_layer_body_def
    by (auto simp: save_as_shapefile_def Let_def split: sum.splits option.splits prod.splits if_splits)
qed

lemma psl_result_indep:
  "snd (fst (process_single_layer py e t k cfg raw b p d fs))
   = snd (fst (process_single_layer py e t k cfg raw b p d []))"
  using psl_body_indep[of py e t cfg raw b p d fs "[]"]
  by (auto simp: process_single_layer_def split: sum.splits prod.splits)

lemma depth_loop_other:
  "k \<notin> fst ` set ls \<Longrightarrow>
   map_of (layers (fst (depth_loop py e t raw b p d ls st))) k = map_of (layers (fst st)) k"
proof (induction ls arbitrary: st)
  case Nil
  then show ?case by simp
next
  case (Cons a ls)
  obtain lk lc where a: "a = (lk, lc)" by (cases a)
  obtain res fs where st: "st = (res, fs)" by (cases st)
  obtain k' l' fs' where p: "process_single_layer py e t lk lc (raw_get raw (ea_layer lc)) b p d fs = ((k', l'), fs')"
    by (metis surj_pair)
  with psl_key[of py e t lk lc "raw_get raw (ea_layer lc)" b p d fs] have k': "k' = lk" by simp
  from Cons.prems a have "k \<noteq> lk" "k \<notin> fst ` set ls" by auto
  with Cons.IH[of "(record_error k' l' (set_layer k' l' res), fs')"] a st p k'
  show ?case by (simp add: layers_record_error map_of_set_layer)
qed

lemma depth_loop_key:
  "distinct (map fst ls) \<Longrightarrow> (k, cfg) \<in> set ls \<Longrightarrow>
   map_of (layers (fst (depth_loop py e t raw b p d ls st))) k
     = Some (snd (fst (process_single_layer py e t k cfg (raw_get raw (ea_layer cfg)) b p d [])))"
proof (induction ls arbitrary: st)
  case Nil
  then show ?case by simp
next
  case (Cons a ls)
  obtain lk lc where a: "a = (lk, lc)" by (cases a)
  obtain res fs where st: "st = (res, fs)" by (cases st)
  obtain k' l' fs' where p: "process_single_layer py e t lk lc (raw_get raw (ea_layer lc)) b p d fs = ((k', l'), fs')"
    by (metis surj_pair)
  with psl_key[of py e t lk lc "raw_get raw (ea_layer lc)" b p d fs] have k': "k' = lk" by simp
  show ?case
  proof (cases "(k, cfg) = (lk, lc)")
    case True
    with Cons.prems a have notin: "k \<notin> fst ` set ls" by auto
    from p psl_result_indep[of py e t lk lc "raw_get raw (ea_layer lc)" b p d fs]
    have l': "l' = snd (fst (process_single_layer py e t lk lc (raw_get raw (ea_layer lc)) b p d []))" by simp
    from depth_loop_other[OF notin, of py e t raw b p d "(record_error k' l' (set_layer k' l' res), fs')"]
    show ?thesis using a st p k' True l' by (simp add: layers_record_error map_of_set_layer)
  next
    case False
    with Cons.prems a have "(k, cfg) \<in> set ls" "distinct (map fst ls)" by auto
    from Cons.IH[OF this(2,1), of "(record_error k' l' (set_layer k' l' res), fs')"]
    show ?thesis using a st p by simp
  qed
qed

lemma errors_record_error:
  "errors (record_error k l res)
     = errors res @ (case error l of Some msg \<Rightarrow> if msg \<noteq> [] then [k @ '': '' @ msg] else [] | None \<Rightarrow> [])"
  by (simp add: record_error_def split: option.splits)

lemma depth_loop_errors:
  "errors (fst (depth_loop py e t raw b p d ls st))
     = errors (fst st) @ concat (map (\<lambda>(k, cfg).
         case error (snd (fst (process_single_layer py e t k cfg (raw_get raw (ea_layer cfg)) b p d []))) of
           Some msg \<Rightarrow> if msg \<noteq> [] then [k @ '': '' @ msg] else []
         | None \<Rightarrow> []) ls)"
proof (induction ls arbitrary: st)
  case Nil
  then show ?case by simp
next
  case (Cons a ls)
  obtain lk lc where a: "a = (lk, lc)" by (cases a)
  obtain res fs where st: "st = (res, fs)" by (cases st)
  obtain k' l' fs' where p: "process_single_layer py e t lk lc (raw_get raw (ea_layer lc)) b p d fs = ((k', l'), fs')"
    by (metis surj_pair)
  with psl_key[of py e t lk lc "raw_get raw (ea_layer lc)" b p d fs] have k': "k' = lk" by simp
  from p psl_result_indep[of py e t lk lc "raw_get raw (ea_layer lc)" b p d fs]
  have l': "snd (fst (process_single_layer py e t lk lc (raw_get raw (ea_layer lc)) b p d [])) = l'" by simp
  from Cons.IH[of "(record_error k' l' (set_layer k' l' res), fs')"] a st p k' l'
  show ?case by (simp add: errors_record_error errors_set_layer)
qed

lemma psl_error_status:
  "error (snd (fst (process_single_layer py e t k cfg raw b p d fs))) = Some msg \<Longrightarrow>
   status (snd (fst (process_single_layer py e t k cfg raw b p d fs))) = ''error''"
  by (auto simp: process_single_layer_def process_single_layer_body_def no_data_def saved_result_def
        error_result_def split: sum.splits prod.splits if_splits option.splits)

lemma psl_empty:
  "empty raw \<Longrightarrow> process_single_layer py e t k cfg raw b p d fs = ((k, no_data cfg), fs)"
  by (simp add: process_single_layer_def process_single_layer_body_def)

lemma risk_band_step_errors:
  "risk_band_step py t c d k st = Inr st' \<Longrightarrow> errors (fst st') = errors (fst st)"
  by (auto simp: risk_band_step_def errors_set_layer split: prod.splits option.splits sum.splits if_splits)

lemma risk_band_step_other:
  "risk_band_step py t c d k st = Inr st' \<Longrightarrow> k' \<noteq> k \<Longrightarrow>
   map_of (layers (fst st')) k' = map_of (layers (fst st)) k'"
  by (auto simp: risk_band_step_def map_of_set_layer split: prod.splits option.splits sum.splits if_splits)

lemma risk_bands_errors:
  "risk_bands py t c d ks st = Inr st' \<Longrightarrow> errors (fst st') = errors (fst st)"
proof (induction ks arbitrary: st)
  case Nil
  then show ?case by simp
next
  case (Cons k ks)
  then obtain st1 where s: "risk_band_step py t c d k st = Inr st1" and r: "risk_bands py t c d ks st1 = Inr st'"
    by (auto split: sum.splits)
  from Cons.IH[OF r] risk_band_step_errors[OF s] show ?case by simp
qed

lemma risk_bands_other:
  "risk_bands py t c d ks st = Inr st' \<Longrightarrow> k' \<notin> set ks \<Longrightarrow>
   map_of (layers (fst st')) k' = map_of (layers (fst st)) k'"
proof (induction ks arbitrary: st)
  case Nil
  then show ?case by simp
next
  case (Cons k ks)
  then obtain st1 where s: "risk_band_step py t c d k st = Inr st1" and r: "risk_bands py t c d ks st1 = Inr st'"
    by (auto split: sum.splits)
  from Cons.prems have "k' \<noteq> k" "k' \<notin> set ks" by auto
  with Cons.IH[OF r] risk_band_step_other[OF s] show ?case by simp
qed

text \<open>What a round of the risk-band loop stores for its key.\<close>

lemma risk_band_step_key:
  assumes "risk_band_step py t oc d k st = Inr st'"
  shows "\<exists>cfg. map_of ROFSW_LAYERS k = Some cfg \<and>
           (case oc of
              None \<Rightarrow> map_of (layers (fst st')) k = Some (no_data cfg)
            | Some c \<Rightarrow>
                if empty c then map_of (layers (fst st')) k = Some (no_data cfg)
                else \<exists>filtered. risk_band_filtered py cfg c = Inr filtered
                       \<and> map_of (layers (fst st')) k = Some (saved_result cfg filtered (\<not> empty filtered))
                       \<and> (\<not> empty filtered \<longrightarrow>
                            map_of (snd st') (d @ ''/'' @ filename cfg @ ''.shp'') = Some (Shapefile filtered)))"
  using assms
  by (auto simp: risk_band_step_def map_of_set_layer save_as_shapefile_def Let_def update_conv'
        split: prod.splits option.splits sum.splits if_splits)

lemma risk_bands_key:
  assumes "risk_bands py t oc d ks st = Inr st'" and "k \<in> set ks" and "distinct ks"
  shows "\<exists>cfg. map_of ROFSW_LAYERS k = Some cfg \<and>
           (case oc of
              None \<Rightarrow> map_of (layers (fst st')) k = Some (no_data cfg)
            | Some c \<Rightarrow>
                if empty c then map_of (layers (fst st')) k = Some (no_data cfg)
                else \<exists>filtered. risk_band_filtered py cfg c = Inr filtered
                       \<and> map_of (layers (fst st')) k = Some (saved_result cfg filtered (\<not> empty filtered)))"
  using assms
proof (induction ks arbitrary: st)
  case Nil
  then show ?case by simp
next
  case (Cons a ks)
  then obtain st1 where s: "risk_band_step py t oc d a st = Inr st1" and r: "risk_bands py t oc d ks st1 = Inr st'"
    by (auto split: sum.splits)
  show ?case
  proof (cases "k = a")
    case True
    with Cons.prems have "k \<notin> set ks" by simp
    from risk_bands_other[OF r this] have eq: "map_of (layers (fst st')) k = map_of (layers (fst st1)) k" .
    from risk_band_step_key[OF s] True eq show ?thesis
      by (auto split: option.splits if_splits)
  next
    case False
    with Cons.prems have "k \<in> set ks" "distinct ks" by auto
    from Cons.IH[OF r this] show ?thesis .
  qed
qed

lemma save_buffer_layers:
  "save_buffer t location r b d st = Inr st' \<Longrightarrow>
   layers (fst st') = AList.update ''search_buffer'' (search_buffer_result location r) (layers (fst st))
   \<and> errors (fst st') = errors (fst st)"
  by (auto simp: save_buffer_def set_layer_def split: prod.splits sum.splits)

lemma package_layers:
  "package w location r st = (res, arch) \<Longrightarrow>
   layers res = layers (fst st) \<and> errors res = errors (fst st)
   \<and> total_features res = Some (sum_features (layers (fst st)))"
  by (auto simp: package_def Let_def split: prod.splits)

lemma process_postcode_stages:
  assumes "process_postcode w pc r = Inr (res, arch)" and "geocode w pc = Inr location"
  shows "\<exists>oc st1 st3.
     clip_rofsw (shapely w)
        (fetch_all (ea w) (snd (create_buffer_bbox (double w) (transform w) (loc_easting location) (loc_northing location) r)))
        (create_buffer_polygon (shapely w) (loc_easting location) (loc_northing location) r)
        (prep (create_buffer_polygon (shapely w) (loc_easting location) (loc_northing location) r)) = Inr oc
   \<and> risk_bands (runtime w) (to_file w) oc ''shapefiles'' [''risk_band_High'', ''risk_band_Medium'', ''risk_band_Low'']
        (initial_results w pc location r
           (fst (create_buffer_bbox (double w) (transform w) (loc_easting location) (loc_northing location) r))
           (snd (create_buffer_bbox (double w) (transform w) (loc_easting location) (loc_northing location) r)), [])
        = Inr st1
   \<and> save_buffer (to_file w) location r
        (create_buffer_polygon (shapely w) (loc_easting location) (loc_northing location) r) ''shapefiles''
        (depth_loop (runtime w) (shapely w) (to_file w)
           (fetch_all (ea w) (snd (create_buffer_bbox (double w) (transform w) (loc_easting location) (loc_northing location) r)))
           (create_buffer_polygon (shapely w) (loc_easting location) (loc_northing location) r)
           (prep (create_buffer_polygon (shapely w) (loc_easting location) (loc_northing location) r))
           ''shapefiles'' depth_layers st1) = Inr st3
   \<and> package w location r st3 = (res, arch)"
  using assms
  by (auto simp: process_postcode_def Let_def simp del: risk_bands.simps split: sum.splits prod.splits)

lemma distinct_set_layer:
  "distinct (map fst (layers res)) \<Longrightarrow> distinct (map fst (layers (set_layer k v res)))"
  by (simp add: set_layer_def distinct_update)

lemma risk_band_step_distinct:
  "risk_band_step py t c d k st = Inr st' \<Longrightarrow> distinct (map fst (layers (fst st))) \<Longrightarrow>
   distinct (map fst (layers (fst st')))"
  by (auto simp: risk_band_step_def distinct_set_layer split: prod.splits option.splits sum.splits if_splits)

lemma risk_bands_distinct:
  "risk_bands py t c d ks st = Inr st' \<Longrightarrow> distinct (map fst (layers (fst st))) \<Longrightarrow>
   distinct (map fst (layers (fst st')))"
proof (induction ks arbitrary: st)
  case Nil
  then show ?case by simp
next
  case (Cons k ks)
  then obtain st1 where s: "risk_band_step py t c d k st = Inr st1" and r: "risk_bands py t c d ks st1 = Inr st'"
    by (auto split: sum.splits)
  from Cons.IH[OF r risk_band_step_distinct[OF s Cons.prems(2)]] show ?case .
qed

lemma depth_loop_distinct:
  "distinct (map fst (layers (fst st))) \<Longrightarrow>
   distinct (map fst (layers (fst (depth_loop py e t raw b p d ls st))))"
proof (induction ls arbitrary: st)
  case Nil
  then show ?case by simp
next
  case (Cons a ls)
  obtain lk lc where a: "a = (lk, lc)" by (cases a)
  obtain res fs where st: "st = (res, fs)" by (cases st)
  obtain k' l' fs' where p: "process_single_layer py e t lk lc (raw_get raw (ea_layer lc)) b p d fs = ((k', l'), fs')"
    by (metis surj_pair)
  from Cons.prems st have "distinct (map fst (layers (record_error k' l' (set_layer k' l' res))))"
    by (simp add: layers_record_error distinct_set_layer)
  with Cons.IH[of "(record_error k' l' (set_layer k' l' res), fs')"] a st p show ?case by simp
qed

lemma sum_features_split:
  "distinct (map fst ls) \<Longrightarrow> map_of ls k = Some v \<Longrightarrow>
   sum_features ls = features v + sum_features (filter (\<lambda>(k', l). k' \<noteq> k) ls)"
proof (induction ls)
  case Nil
  then show ?case by simp
next
  case (Cons a ls)
  obtain k0 v0 where a: "a = (k0, v0)" by (cases a)
  show ?case
  proof (cases "k0 = k")
    case True
    with Cons.prems a have v: "v0 = v" and notin: "k \<notin> fst ` set ls" by auto
    then have "filter (\<lambda>(k', l). k' \<noteq> k) ls = ls"
      by (force simp: filter_id_conv)
    with a True v show ?thesis by (simp add: sum_features_def)
  next
    case False
    with Cons.prems a have "distinct (map fst ls)" "map_of ls k = Some v" by auto
    from Cons.IH[OF this] a False show ?thesis by (simp add: sum_features_def)
  qed
qed

subsection \<open>The configuration, evaluated\<close>




lemma depth_layers_eq:
  "depth_layers = drop 3 ROFSW_LAYERS"
  by (simp add: depth_layers_def ROFSW_LAYERS_def startswith_def)

lemma risk_configs:
  "map_of ROFSW_LAYERS ''risk_band_High'' = Some (snd (ROFSW_LAYERS ! 0))"
  "map_of ROFSW_LAYERS ''risk_band_Medium'' = Some (snd (ROFSW_LAYERS ! 1))"
  "map_of ROFSW_LAYERS ''risk_band_Low'' = Some (snd (ROFSW_LAYERS ! 2))"
  by (simp_all add: ROFSW_LAYERS_def)

lemma unique_layers_eq:
  "unique_layers = map fst EA_LAYER_IDS"
  by (simp add: unique_layers_def ROFSW_LAYERS_def EA_LAYER_IDS_def)

lemma str_500: "str_int (int_of_float 500) = ''500''"
  by code_simp

lemma depth_keys:
  "fst ` set depth_layers = {''depth_0.2m'', ''depth_0.3m'', ''depth_0.6m'', ''depth_0.9m'', ''depth_1.2m''}"
  by (simp add: depth_layers_eq ROFSW_LAYERS_def)

lemma distinct_depth: "distinct (map fst depth_layers)"
  by (simp add: depth_layers_eq ROFSW_LAYERS_def)

lemma ROFSW_split: "ROFSW_LAYERS = take 3 ROFSW_LAYERS @ depth_layers"
  by (simp add: depth_layers_eq)

lemma risk_part:
  "list_all (\<lambda>(k, cfg). k \<in> set [''risk_band_High'', ''risk_band_Medium'', ''risk_band_Low'']
       \<and> map_of ROFSW_LAYERS k = Some cfg \<and> ea_layer cfg = ''rofsw'') (take 3 ROFSW_LAYERS)"
  by (simp add: ROFSW_LAYERS_def)

lemma depth_part:
  "list_all (\<lambda>(k, cfg). ea_layer cfg \<noteq> ''rofsw'') depth_layers"
  by (simp add: depth_layers_eq ROFSW_LAYERS_def)

lemma keys_part:
  "list_all (\<lambda>(k, cfg). k \<noteq> ''search_buffer'') ROFSW_LAYERS"
  by (simp add: ROFSW_LAYERS_def)

lemma layer_cases:
  assumes "(k, cfg) \<in> set ROFSW_LAYERS"
  shows "(k \<in> set [''risk_band_High'', ''risk_band_Medium'', ''risk_band_Low'']
            \<and> map_of ROFSW_LAYERS k = Some cfg \<and> ea_layer cfg = ''rofsw'')
         \<or> ((k, cfg) \<in> set depth_layers \<and> ea_layer cfg \<noteq> ''rofsw'')"
proof -
  from assms ROFSW_split have "(k, cfg) \<in> set (take 3 ROFSW_LAYERS) \<or> (k, cfg) \<in> set depth_layers"
    by (metis Un_iff set_append)
  then show ?thesis
  proof
    assume "(k, cfg) \<in> set (take 3 ROFSW_LAYERS)"
    with risk_part show ?thesis unfolding list_all_iff by blast
  next
    assume "(k, cfg) \<in> set depth_layers"
    with depth_part show ?thesis unfolding list_all_iff by blast
  qed
qed

lemma not_search_buffer: "(k, cfg) \<in> set ROFSW_LAYERS \<Longrightarrow> k \<noteq> ''search_buffer''"
  using keys_part unfolding list_all_iff by blast

lemma risk_not_depth:
  "k \<in> set [''risk_band_High'', ''risk_band_Medium'', ''risk_band_Low''] \<Longrightarrow> k \<notin> fst ` set depth_layers"
  by (auto simp: depth_keys)

lemma final_layers:
  assumes "save_buffer t location r b d st2 = Inr st3" and "package w location r st3 = (res, arch)"
      and "k \<noteq> ''search_buffer''"
  shows "map_of (layers res) k = map_of (layers (fst st2)) k"
  using save_buffer_layers[OF assms(1)] package_layers[OF assms(2)] assms(3)
  by (simp add: update_conv')

lemma final_errors:
  assumes "save_buffer t location r b d st2 = Inr st3" and "package w location r st3 = (res, arch)"
  shows "errors res = errors (fst st2)"
  using save_buffer_layers[OF assms(1)] package_layers[OF assms(2)] by simp


lemma risk_band_filtered_strings:
  assumes "filter_field cfg = Some f" "filter_value cfg = Some v" "f \<in> set (columns c)"
      and "str_accessor py (column c f)"
  shows "risk_band_filtered py cfg c = Inr (c\<lparr>rows := filter (matches py f v) (rows c)\<rparr>)"
  using assms
  by (simp add: risk_band_filtered_def attribute_filter_def)


lemma empty_GeoDataFrame: "empty GeoDataFrame"
  by (simp add: empty_def GeoDataFrame_def)

lemma fetch_layer_failed:
  assumes "map_of EA_LAYER_IDS x = Some layer_id"
      and "\<forall>j. \<exists>e. post w (query_url layer_id) (query_polygon bbox) j = HttpError e"
  shows "fetch_layer w bbox x = GeoDataFrame"
proof -
  from assms(2) obtain e1 e2 e3 where
    "post w (query_url layer_id) (query_polygon bbox) 1 = HttpError e1"
    "post w (query_url layer_id) (query_polygon bbox) 2 = HttpError e2"
    "post w (query_url layer_id) (query_polygon bbox) 3 = HttpError e3"
    by meson
  from retry_exhausted[OF this]
  have "retry (post w (query_url layer_id) (query_polygon bbox)) 3 [1..<3 + 1]
          = ([Post 1, Sleep 3, Post 2, Sleep 6, Post 3], Inl e3)" .
  with assms(1) show ?thesis
    by (simp add: fetch_layer_def download_ea_layer_def)
qed

lemma fetch_layer_tiny:
  assumes "\<forall>url poly. \<exists>c. post w url poly 1 = HttpResponse c \<and> length c < 100"
  shows "fetch_layer w bbox name = GeoDataFrame"
proof (cases "map_of EA_LAYER_IDS name")
  case None
  then show ?thesis by (simp add: fetch_layer_def download_ea_layer_def)
next
  case (Some layer_id)
  from assms obtain c where c: "post w (query_url layer_id) (query_polygon bbox) 1 = HttpResponse c"
    and small: "length c < 100" by blast
  from retry_first[of "post w (query_url layer_id) (query_polygon bbox)" c, OF c]
  have "retry (post w (query_url layer_id) (query_polygon bbox)) 3 [1..<3 + 1] = ([Post 1], Inr (Some c))" .
  with Some small show ?thesis
    by (simp add: fetch_layer_def download_ea_layer_def parse_response_def)
qed

lemma raw_get_fetch_all:
  "raw_get (fetch_all w bbox) name
     = (if name \<in> set unique_layers then fetch_layer w bbox name else GeoDataFrame)"
proof -
  have "map_of (map (\<lambda>n. (n, fetch_layer w bbox n)) ns) name
          = (if name \<in> set ns then Some (fetch_layer w bbox name) else None)" for ns
    by (induction ns) auto
  then show ?thesis by (simp add: raw_get_def fetch_all_def)
qed

lemma raw_get_empty:
  "fetch_layer w bbox name = GeoDataFrame \<Longrightarrow> raw_get (fetch_all w bbox) name = GeoDataFrame"
  by (simp add: raw_get_fetch_all)

lemma clip_rofsw_empty:
  "raw_get raw ''rofsw'' = GeoDataFrame \<Longrightarrow> clip_rofsw e raw b p = Inr None"
  by (simp add: clip_rofsw_def empty_GeoDataFrame)

lemma depth_layer_result:
  assumes "process_postcode w pc r = Inr (res, arch)" and "geocode w pc = Inr location"
      and "(k, cfg) \<in> set depth_layers"
  shows "map_of (layers res) k
     = Some (snd (fst (process_single_layer (runtime w) (shapely w) (to_file w) k cfg
         (raw_get (fetch_all (ea w) (snd (create_buffer_bbox (double w) (transform w) (loc_easting location) (loc_northing location) r)))
            (ea_layer cfg))
         (create_buffer_polygon (shapely w) (loc_easting location) (loc_northing location) r)
         (prep (create_buffer_polygon (shapely w) (loc_easting location) (loc_northing location) r))
         ''shapefiles'' [])))"
proof -
  from process_postcode_stages[OF assms(1,2)] obtain st1 st3 where
    sb: "save_buffer (to_file w) location r
        (create_buffer_polygon (shapely w) (loc_easting location) (loc_northing location) r) ''shapefiles''
        (depth_loop (runtime w) (shapely w) (to_file w)
           (fetch_all (ea w) (snd (create_buffer_bbox (double w) (transform w) (loc_easting location) (loc_northing location) r)))
           (create_buffer_polygon (shapely w) (loc_easting location) (loc_northing location) r)
           (prep (create_buffer_polygon (shapely w) (loc_easting location) (loc_northing location) r))
           ''shapefiles'' depth_layers st1) = Inr st3"
    and pk: "package w location r st3 = (res, arch)"
    by blast
  from assms(3) depth_layers_eq have "(k, cfg) \<in> set ROFSW_LAYERS"
    by (metis in_set_dropD)
  then have "k \<noteq> ''search_buffer''" by (rule not_search_buffer)
  from final_layers[OF sb pk this] depth_loop_key[OF distinct_depth assms(3)]
  show ?thesis by simp
qed

lemma risk_layer_result:
  assumes "process_postcode w pc r = Inr (res, arch)" and "geocode w pc = Inr location"
      and "k \<in> set [''risk_band_High'', ''risk_band_Medium'', ''risk_band_Low'']"
  shows "\<exists>oc st1.
     clip_rofsw (shapely w)
        (fetch_all (ea w) (snd (create_buffer_bbox (double w) (transform w) (loc_easting location) (loc_northing location) r)))
        (create_buffer_polygon (shapely w) (loc_easting location) (loc_northing location) r)
        (prep (create_buffer_polygon (shapely w) (loc_easting location) (loc_northing location) r)) = Inr oc
   \<and> risk_bands (runtime w) (to_file w) oc ''shapefiles'' [''risk_band_High'', ''risk_band_Medium'', ''risk_band_Low'']
        (initial_results w pc location r
           (fst (create_buffer_bbox (double w) (transform w) (loc_easting location) (loc_northing location) r))
           (snd (create_buffer_bbox (double w) (transform w) (loc_easting location) (loc_northing location) r)), [])
        = Inr st1
   \<and> map_of (layers res) k = map_of (layers (fst st1)) k"
proof -
  from process_postcode_stages[OF assms(1,2)] obtain oc st1 st3 where
    c1: "clip_rofsw (shapely w)
        (fetch_all (ea w) (snd (create_buffer_bbox (double w) (transform w) (loc_easting location) (loc_northing location) r)))
        (create_buffer_polygon (shapely w) (loc_easting location) (loc_northing location) r)
        (prep (create_buffer_polygon (shapely w) (loc_easting location) (loc_northing location) r)) = Inr oc"
    and rb: "risk_bands (runtime w) (to_file w) oc ''shapefiles'' [''risk_band_High'', ''risk_band_Medium'', ''risk_band_Low'']
        (initial_results w pc location r
           (fst (create_buffer_bbox (double w) (transform w) (loc_easting location) (loc_northing location) r))
           (snd (create_buffer_bbox (double w) (transform w) (loc_easting location) (loc_northing location) r)), [])
        = Inr st1"
    and sb: "save_buffer (to_file w) location r
        (create_buffer_polygon (shapely w) (loc_easting location) (loc_northing location) r) ''shapefiles''
        (depth_loop (runtime w) (shapely w) (to_file w)
           (fetch_all (ea w) (snd (create_buffer_bbox (double w) (transform w) (loc_easting location) (loc_northing location) r)))
           (create_buffer_polygon (shapely w) (loc_easting location) (loc_northing location) r)
           (prep (create_buffer_polygon (shapely w) (loc_easting location) (loc_northing location) r))
           ''shapefiles'' depth_layers st1) = Inr st3"
    and pk: "package w location r st3 = (res, arch)"
    by blast
  from assms(3) have "k \<noteq> ''search_buffer''" by auto
  from final_layers[OF sb pk this] depth_loop_other[OF risk_not_depth[OF assms(3)]]
  have "map_of (layers res) k = map_of (layers (fst st1)) k" by simp
  with c1 rb show ?thesis by blast
qed

lemma job_errors:
  assumes "process_postcode w pc r = Inr (res, arch)" and "geocode w pc = Inr location"
  shows "errors res = concat (map (\<lambda>(k, cfg).
         case error (snd (fst (process_single_layer (runtime w) (shapely w) (to_file w) k cfg
                (raw_get (fetch_all (ea w) (snd (create_buffer_bbox (double w) (transform w) (loc_easting location) (loc_northing location) r)))
                   (ea_layer cfg))
                (create_buffer_polygon (shapely w) (loc_easting location) (loc_northing location) r)
                (prep (create_buffer_polygon (shapely w) (loc_easting location) (loc_northing location) r))
                ''shapefiles'' []))) of
           Some msg \<Rightarrow> if msg \<noteq> [] then [k @ '': '' @ msg] else []
         | None \<Rightarrow> []) depth_layers)"
proof -
  from process_postcode_stages[OF assms(1,2)] obtain oc st1 st3 where
    rb: "risk_bands (runtime w) (to_file w) oc ''shapefiles'' [''risk_band_High'', ''risk_band_Medium'', ''risk_band_Low'']
        (initial_results w pc location r
           (fst (create_buffer_bbox (double w) (transform w) (loc_easting location) (loc_northing location) r))
           (snd (create_buffer_bbox (double w) (transform w) (loc_easting location) (loc_northing location) r)), [])
        = Inr st1"
    and sb: "save_buffer (to_file w) location r
        (create_buffer_polygon (shapely w) (loc_easting location) (loc_northing location) r) ''shapefiles''
        (depth_loop (runtime w) (shapely w) (to_file w)
           (fetch_all (ea w) (snd (create_buffer_bbox (double w) (transform w) (loc_easting location) (loc_northing location) r)))
           (create_buffer_polygon (shapely w) (loc_easting location) (loc_northing location) r)
           (prep (create_buffer_polygon (shapely w) (loc_easting location) (loc_northing location) r))
           ''shapefiles'' depth_layers st1) = Inr st3"
    and pk: "package w location r st3 = (res, arch)"
    by blast
  from risk_bands_errors[OF rb] have "errors (fst st1) = []" by (simp add: initial_results_def)
  with final_errors[OF sb pk] show ?thesis by (simp add: depth_loop_errors)
qed

lemma query_url_inj: "query_url a = query_url b \<Longrightarrow> a = b"
  by (simp add: query_url_def)

lemma distinct_ids: "distinct (map snd EA_LAYER_IDS)"
  by (simp add: EA_LAYER_IDS_def)

lemma ids_inj:
  assumes "map_of EA_LAYER_IDS x = Some i" and "map_of EA_LAYER_IDS y = Some i"
  shows "x = y"
proof -
  from assms have "(x, i) \<in> set EA_LAYER_IDS" "(y, i) \<in> set EA_LAYER_IDS"
    by (auto dest: map_of_SomeD)
  moreover from distinct_ids have "inj_on snd (set EA_LAYER_IDS)"
    by (simp add: distinct_map)
  ultimately have "(x, i) = (y, i)" by (intro inj_onD[of snd "set EA_LAYER_IDS"]) simp_all
  then show ?thesis by simp
qed

lemma parse_response_cong:
  assumes "zip_namelist w1 = zip_namelist w2" "read_file w1 = read_file w2" "reproject w1 = reproject w2"
  shows "parse_response w1 c = parse_response w2 c"
  unfolding parse_response_def to_crs_def assms by (rule refl)

lemma fetch_layer_cong:
  assumes "\<And>layer_id. map_of EA_LAYER_IDS y = Some layer_id \<Longrightarrow>
             post w1 (query_url layer_id) = post w2 (query_url layer_id)"
      and "zip_namelist w1 = zip_namelist w2" "read_file w1 = read_file w2" "reproject w1 = reproject w2"
  shows "fetch_layer w1 bbox y = fetch_layer w2 bbox y"
proof (cases "map_of EA_LAYER_IDS y")
  case None
  then show ?thesis by (simp add: fetch_layer_def download_ea_layer_def)
next
  case (Some layer_id)
  with assms(1) have p: "post w1 (query_url layer_id) = post w2 (query_url layer_id)" by simp
  have pr: "parse_response w1 = parse_response w2"
    using parse_response_cong[OF assms(2-4)] by (simp add: fun_eq_iff)
  show ?thesis
    unfolding fetch_layer_def download_ea_layer_def pr by (simp add: Some p)
qed

lemma fetch_layer_other:
  assumes "map_of EA_LAYER_IDS x = Some layer_id"
      and "\<forall>url poly j. url \<noteq> query_url layer_id \<longrightarrow> post' url poly j = post w url poly j"
      and "y \<noteq> x"
  shows "fetch_layer (w\<lparr>post := post'\<rparr>) bbox y = fetch_layer w bbox y"
proof (rule fetch_layer_cong)
  fix i assume "map_of EA_LAYER_IDS y = Some i"
  with assms(1,3) ids_inj have "i \<noteq> layer_id" by blast
  then have "query_url i \<noteq> query_url layer_id" using query_url_inj by blast
  with assms(2) show "post (w\<lparr>post := post'\<rparr>) (query_url i) = post w (query_url i)"
    by (simp add: fun_eq_iff)
qed simp_all

lemma raw_get_other:
  assumes "map_of EA_LAYER_IDS x = Some layer_id"
      and "\<forall>url poly j. url \<noteq> query_url layer_id \<longrightarrow> post' url poly j = post w url poly j"
      and "y \<noteq> x"
  shows "raw_get (fetch_all (w\<lparr>post := post'\<rparr>) bbox) y = raw_get (fetch_all w bbox) y"
  by (simp add: raw_get_fetch_all fetch_layer_other[OF assms])

lemma no_data_layers:
  assumes run: "process_postcode w pc r = Inr (res, arch)" and geo: "geocode w pc = Inr location"
      and raw: "raw_get (fetch_all (ea w) (snd (create_buffer_bbox (double w) (transform w) (loc_easting location) (loc_northing location) r))) x
                  = GeoDataFrame"
      and kc: "(k, cfg) \<in> set ROFSW_LAYERS" and fed: "ea_layer cfg = x"
  shows "map_of (layers res) k = Some (no_data cfg)"
  using layer_cases[OF kc]
proof
  assume a: "k \<in> set [''risk_band_High'', ''risk_band_Medium'', ''risk_band_Low'']
               \<and> map_of ROFSW_LAYERS k = Some cfg \<and> ea_layer cfg = ''rofsw''"
  with fed have x: "x = ''rofsw''" by simp
  from a have kin: "k \<in> set [''risk_band_High'', ''risk_band_Medium'', ''risk_band_Low'']" by simp
  from risk_layer_result[OF run geo kin] obtain oc st1 where
    c1: "clip_rofsw (shapely w)
        (fetch_all (ea w) (snd (create_buffer_bbox (double w) (transform w) (loc_easting location) (loc_northing location) r)))
        (create_buffer_polygon (shapely w) (loc_easting location) (loc_northing location) r)
        (prep (create_buffer_polygon (shapely w) (loc_easting location) (loc_northing location) r)) = Inr oc"
    and rb: "risk_bands (runtime w) (to_file w) oc ''shapefiles'' [''risk_band_High'', ''risk_band_Medium'', ''risk_band_Low'']
        (initial_results w pc location r
           (fst (create_buffer_bbox (double w) (transform w) (loc_easting location) (loc_northing location) r))
           (snd (create_buffer_bbox (double w) (transform w) (loc_easting location) (loc_northing location) r)), [])
        = Inr st1"
    and eq: "map_of (layers res) k = map_of (layers (fst st1)) k"
    by blast
  from raw x c1 have "oc = None" by (simp add: clip_rofsw_empty)
  with risk_bands_key[OF rb kin] a eq show ?thesis by simp
next
  assume a: "(k, cfg) \<in> set depth_layers \<and> ea_layer cfg \<noteq> ''rofsw''"
  then have "(k, cfg) \<in> set depth_layers" by simp
  from depth_layer_result[OF run geo this] raw fed show ?thesis
    by (simp add: psl_empty empty_GeoDataFrame)
qed

lemma error_entries:
  assumes run: "process_postcode w pc r = Inr (res, arch)" and geo: "geocode w pc = Inr location"
      and s: "s \<in> set (errors res)"
  shows "\<exists>k l msg. map_of (layers res) k = Some l \<and> status l = ''error'' \<and> error l = Some msg
            \<and> s = k @ '': '' @ msg"
proof -
  from s job_errors[OF run geo] obtain k cfg where kc: "(k, cfg) \<in> set depth_layers"
    and s': "s \<in> set (case error (snd (fst (process_single_layer (runtime w) (shapely w) (to_file w) k cfg
                (raw_get (fetch_all (ea w) (snd (create_buffer_bbox (double w) (transform w) (loc_easting location) (loc_northing location) r)))
                   (ea_layer cfg))
                (create_buffer_polygon (shapely w) (loc_easting location) (loc_northing location) r)
                (prep (create_buffer_polygon (shapely w) (loc_easting location) (loc_northing location) r))
                ''shapefiles'' []))) of
           Some msg \<Rightarrow> if msg \<noteq> [] then [k @ '': '' @ msg] else []
         | None \<Rightarrow> [])"
    by auto
  define l where "l = snd (fst (process_single_layer (runtime w) (shapely w) (to_file w) k cfg
                (raw_get (fetch_all (ea w) (snd (create_buffer_bbox (double w) (transform w) (loc_easting location) (loc_northing location) r)))
                   (ea_layer cfg))
                (create_buffer_polygon (shapely w) (loc_easting location) (loc_northing location) r)
                (prep (create_buffer_polygon (shapely w) (loc_easting location) (loc_northing location) r))
                ''shapefiles'' []))"
  from s' obtain msg where e: "error l = Some msg" and seq: "s = k @ '': '' @ msg"
    unfolding l_def[symmetric] by (cases "error l") (auto split: if_splits)
  from e have "status l = ''error''" unfolding l_def by (rule psl_error_status)
  moreover from depth_layer_result[OF run geo kc] have "map_of (layers res) k = Some l"
    unfolding l_def .
  ultimately show ?thesis using e seq by blast
qed

subsection \<open>C8: the projected rectangle\<close>

lemma round_to_grid_int: "round_to_grid (of_int k) = of_int k"
proof -
  have "of_int k * (1024::real) = of_int (k * 1024)" by simp
  then have "round (of_int k * (1024::real)) = k * 1024" by (simp only: round_of_int)
  then show ?thesis by (simp add: round_to_grid_def)
qed

text \<open>
  C8. For every centre (easting, northing) and every radius \<open>r > 0\<close>, given as
  doubles, the projected rectangle returned by \<open>create_buffer_bbox\<close> is
  \<open>(easting - r, northing - r, easting + r, northing + r)\<close> in the arithmetic of the
  source, that is, each component is the exact difference or sum rounded to a double,
  whatever the reprojection does. Every integer up to \<open>2 ^ 53\<close> in size is a double,
  so the centre (530000, 180000) with radius 500 yields exactly
  (529500, 179500, 530500, 180500).
\<close>

theorem create_buffer_bbox_rectangle:
  "(0 < r \<and> rnd e = e \<and> rnd n = n \<and> rnd r = r
      \<longrightarrow> fst (create_buffer_bbox rnd tr e n r)
            = (rnd (e - r), rnd (n - r), rnd (e + r), rnd (n + r)))
   \<and> ((\<forall>k::int. \<bar>k\<bar> \<le> 2 ^ 53 \<longrightarrow> rnd (of_int k) = of_int k)
      \<longrightarrow> fst (create_buffer_bbox rnd tr 530000 180000 500)
            = (529500, 179500, 530500, 180500))"
proof (intro conjI impI)
  assume "0 < r \<and> rnd e = e \<and> rnd n = n \<and> rnd r = r"
  then show "fst (create_buffer_bbox rnd tr e n r)
            = (rnd (e - r), rnd (n - r), rnd (e + r), rnd (n + r))"
    by (simp add: create_buffer_bbox_def Let_def split: prod.splits)
next
  assume ints: "\<forall>k::int. \<bar>k\<bar> \<le> 2 ^ 53 \<longrightarrow> rnd (of_int k) = of_int k"
  have keep: "rnd (of_int k) = of_int k" if "\<bar>k\<bar> \<le> 2 ^ 53" for k :: int
    using ints that by blast
  have "rnd 530000 = 530000" "rnd 180000 = 180000" "rnd 500 = 500"
       "rnd 529500 = 529500" "rnd 179500 = 179500" "rnd 530500 = 530500" "rnd 180500 = 180500"
    using keep[of 530000] keep[of 180000] keep[of 500] keep[of 529500] keep[of 179500]
          keep[of 530500] keep[of 180500]
    by simp_all
  then show "fst (create_buffer_bbox rnd tr 530000 180000 500)
            = (529500, 179500, 530500, 180500)"
    by (simp add: create_buffer_bbox_def Let_def split: prod.splits)
qed

theorem create_buffer_bbox_rectangle_witness:
  "(0::real) < 501 / 2
   \<and> round_to_grid 400000 = 400000 \<and> round_to_grid 300000 = 300000
   \<and> round_to_grid (501 / 2) = 501 / 2
   \<and> fst (create_buffer_bbox round_to_grid (\<lambda>x y. (x / 100000, y / 100000)) 400000 300000 (501 / 2))
       = (799499 / 2, 599499 / 2, 800501 / 2, 600501 / 2)
   \<and> fst (create_buffer_bbox round_to_grid (\<lambda>x y. (x / 100000, y / 100000)) 530000 180000 500)
       = (529500, 179500, 530500, 180500)"
proof -
  have g: "round_to_grid 400000 = 400000" "round_to_grid 300000 = 300000"
    using round_to_grid_int[of 400000] round_to_grid_int[of 300000] by simp_all
  have h: "round_to_grid (501 / 2) = 501 / 2"
    by (simp add: round_to_grid_def)
  have v: "round_to_grid (799499 / 2) = 799499 / 2" "round_to_grid (599499 / 2) = 599499 / 2"
          "round_to_grid (800501 / 2) = 800501 / 2" "round_to_grid (600501 / 2) = 600501 / 2"
    by (simp_all add: round_to_grid_def)
  have ints: "\<forall>k::int. \<bar>k\<bar> \<le> 2 ^ 53 \<longrightarrow> round_to_grid (of_int k) = of_int k"
    by (simp add: round_to_grid_int)
  from create_buffer_bbox_rectangle
         [of "501 / 2" round_to_grid 400000 300000 "\<lambda>x y. (x / 100000, y / 100000)"]
       g h v ints
  show ?thesis by simp
qed

subsection \<open>C6: small payloads and the retry budget\<close>

text \<open>
  C6. For every remote layer identifier and bounding box, \<open>download_ea_layer\<close> with
  its budget of 3 attempts returns the empty collection, not an error, when the first
  response it obtains (at attempt \<open>k\<close>, the earlier attempts having failed) has fewer
  than 100 bytes; and when every attempt fails it sends exactly three requests,
  sleeps 3 seconds after the first and 6 after the second, and then raises the
  exception of the third.
\<close>

theorem download_ea_layer_small_payload_and_retries:
  "(map_of EA_LAYER_IDS layer_name = Some layer_id
      \<and> 1 \<le> k \<and> k \<le> 3
      \<and> (\<forall>j. 1 \<le> j \<and> j < k \<longrightarrow>
            (\<exists>e. post w (query_url layer_id) (query_polygon bbox) j = HttpError e))
      \<and> post w (query_url layer_id) (query_polygon bbox) k = HttpResponse content
      \<and> length content < 100
    \<longrightarrow> snd (download_ea_layer w layer_name bbox 3) = Inr GeoDataFrame
        \<and> empty GeoDataFrame)
   \<and> (map_of EA_LAYER_IDS layer_name = Some layer_id
      \<and> (\<forall>j. 1 \<le> j \<and> j \<le> 3 \<longrightarrow>
            post w (query_url layer_id) (query_polygon bbox) j = HttpError (err j))
    \<longrightarrow> download_ea_layer w layer_name bbox 3
          = ([Post 1, Sleep 3, Post 2, Sleep 6, Post 3], Inl (err 3)))"
proof (intro conjI impI)
  assume a: "map_of EA_LAYER_IDS layer_name = Some layer_id
      \<and> 1 \<le> k \<and> k \<le> 3
      \<and> (\<forall>j. 1 \<le> j \<and> j < k \<longrightarrow>
            (\<exists>e. post w (query_url layer_id) (query_polygon bbox) j = HttpError e))
      \<and> post w (query_url layer_id) (query_polygon bbox) k = HttpResponse content
      \<and> length content < 100"
  then have "snd (retry (post w (query_url layer_id) (query_polygon bbox)) 3 [1..<3 + 1])
               = Inr (Some content)"
    by (intro retry_small[of k]) simp_all
  with a show "snd (download_ea_layer w layer_name bbox 3) = Inr GeoDataFrame"
    by (auto simp: download_ea_layer_def parse_response_def split: prod.splits)
  show "empty GeoDataFrame"
    by (simp add: empty_def GeoDataFrame_def)
next
  assume a: "map_of EA_LAYER_IDS layer_name = Some layer_id
      \<and> (\<forall>j. 1 \<le> j \<and> j \<le> 3 \<longrightarrow>
            post w (query_url layer_id) (query_polygon bbox) j = HttpError (err j))"
  then have "retry (post w (query_url layer_id) (query_polygon bbox)) 3 [1..<3 + 1]
               = ([Post 1, Sleep 3, Post 2, Sleep 6, Post 3], Inl (err 3))"
    by (intro retry_exhausted) simp_all
  with a show "download_ea_layer w layer_name bbox 3
          = ([Post 1, Sleep 3, Post 2, Sleep 6, Post 3], Inl (err 3))"
    by (simp add: download_ea_layer_def)
qed

lemma rofsw_id: "map_of EA_LAYER_IDS ''rofsw'' = Some ''7a7d1570-dd33-4edc-9a19-fde1b9fcaadb''"
  by (simp add: EA_LAYER_IDS_def)

lemma depth02_id:
  "map_of EA_LAYER_IDS ''rofsw_0_2m_depth'' = Some ''8aa5d9cb-2a54-4480-b7d6-0aaef9efa576''"
  by (simp add: EA_LAYER_IDS_def)

theorem download_ea_layer_small_payload_and_retries_witness:
  "map_of EA_LAYER_IDS ''rofsw'' = Some ''7a7d1570-dd33-4edc-9a19-fde1b9fcaadb''
   \<and> post (sample_remote post_flaky) (query_url ''7a7d1570-dd33-4edc-9a19-fde1b9fcaadb'')
         (query_polygon (0, 0, 1, 1)) 2 = HttpResponse []
   \<and> snd (download_ea_layer (sample_remote post_flaky) ''rofsw'' (0, 0, 1, 1) 3) = Inr GeoDataFrame
   \<and> map_of EA_LAYER_IDS ''rofsw_0_2m_depth'' = Some ''8aa5d9cb-2a54-4480-b7d6-0aaef9efa576''
   \<and> download_ea_layer (sample_remote post_one_down) ''rofsw_0_2m_depth'' (0, 0, 1, 1) 3
       = ([Post 1, Sleep 3, Post 2, Sleep 6, Post 3], Inl ''503 Server Error'')"
proof -
  have a: "snd (download_ea_layer (sample_remote post_flaky) ''rofsw'' (0, 0, 1, 1) 3) = Inr GeoDataFrame"
    using download_ea_layer_small_payload_and_retries
            [where layer_name = "''rofsw''" and layer_id = "''7a7d1570-dd33-4edc-9a19-fde1b9fcaadb''"
               and k = 2 and w = "sample_remote post_flaky" and bbox = "(0, 0, 1, 1)"
               and content = "[]"]
          rofsw_id
    by (simp add: sample_remote_def post_flaky_def)
  have b: "download_ea_layer (sample_remote post_one_down) ''rofsw_0_2m_depth'' (0, 0, 1, 1) 3
       = ([Post 1, Sleep 3, Post 2, Sleep 6, Post 3], Inl ''503 Server Error'')"
    using download_ea_layer_small_payload_and_retries
            [where layer_name = "''rofsw_0_2m_depth''"
               and layer_id = "''8aa5d9cb-2a54-4480-b7d6-0aaef9efa576''"
               and w = "sample_remote post_one_down" and bbox = "(0, 0, 1, 1)"
               and err = "\<lambda>j. ''503 Server Error''"]
          depth02_id
    by (simp add: sample_remote_def post_one_down_def)
  from a b rofsw_id depth02_id show ?thesis
    by (simp add: sample_remote_def post_flaky_def)
qed

subsection \<open>C7: no multi-part geometry is returned\<close>


lemma explode_sample: "explode sample_dataset = sample_exploded"
  by (simp add: explode_def sample_dataset_def sample_exploded_def square_def)

lemma replicate_120: "\<not> length (replicate 120 c) < 100"
  by simp

lemma parse_sample: "parse_response (sample_remote p) (replicate 120 c) = Inr sample_exploded"
proof -
  have "filter (\<lambda>n. endswith n ''.shp'') [''rofsw.dbf'', ''rofsw.shp''] = [''rofsw.shp'']"
    by (simp add: endswith_def)
  moreover have "\<not> empty sample_dataset" by (simp add: empty_def sample_dataset_def)
  moreover have "crs sample_exploded = Some CRS_BNG" by (simp add: sample_exploded_def CRS_BNG_def)
  ultimately show ?thesis
    by (simp add: parse_response_def sample_remote_def explode_sample)
qed

lemma download_sample:
  "map_of EA_LAYER_IDS name = Some layer_id \<Longrightarrow>
   download_ea_layer (sample_remote post_ok) name bbox 3 = ([Post 1], Inr sample_exploded)"
proof -
  assume a: "map_of EA_LAYER_IDS name = Some layer_id"
  have "post (sample_remote post_ok) (query_url layer_id) (query_polygon bbox) 1
          = HttpResponse (replicate 120 (CHR ''z''))"
    by (simp add: sample_remote_def post_ok_def)
  from retry_first[of "post (sample_remote post_ok) (query_url layer_id) (query_polygon bbox)", OF this] a
  show ?thesis by (simp add: download_ea_layer_def parse_sample)
qed


subsection \<open>The sample clip, evaluated\<close>


lemma sample_boundary_eq: "sample_boundary = Polygon sample_ring"
  by (simp add: sample_boundary_def create_buffer_polygon_def convex_engine_def circle12_def sample_ring_def)

lemma ccw_sample_ring: "ccw sample_ring = rev sample_ring"
  by (simp add: ccw_def sample_ring_def area2_def sides_def)

lemma sides_sample_ring: "sides (ccw sample_ring) = zip (rev sample_ring) (rotate1 (rev sample_ring))"
  by (simp add: ccw_sample_ring sides_def)

lemma verts_square: "verts (square x y s) = [(x, y), (x + s, y), (x + s, y + s), (x, y + s)]"
  by (simp add: square_def)

lemma centroid_square:
  "s \<noteq> 0 \<Longrightarrow> ring_centroid [(x, y), (x + s, y), (x + s, y + s), (x, y + s)] = (x + s / 2, y + s / 2)"
  apply (simp add: ring_centroid_def area2_def sides_def)
  apply (simp add: field_simps)
  done


lemma verts_boundary: "verts sample_boundary = sample_ring"
  by (simp add: sample_boundary_eq)

lemma inside_square:
  "inside_mask convex_engine sample_boundary \<lparr>geometry = square x y 2, attrs = a\<rparr>
     = list_all (\<lambda>(p, q). 0 < cross p q (x + 1, y + 1)) (sides (ccw sample_ring))"
  by (simp add: inside_mask_def convex_engine_def verts_square centroid_square verts_boundary
        convex_contains_def sample_ring_def)

lemma inside_1: "inside_mask convex_engine sample_boundary \<lparr>geometry = square 530010 180010 2, attrs = a\<rparr>"
  by (simp add: inside_square sides_sample_ring) (simp add: sample_ring_def cross_def)

lemma inside_2: "inside_mask convex_engine sample_boundary \<lparr>geometry = square 530020 180010 2, attrs = a\<rparr>"
  by (simp add: inside_square sides_sample_ring) (simp add: sample_ring_def cross_def)

lemma inside_3: "\<not> inside_mask convex_engine sample_boundary \<lparr>geometry = square 530499 179999 2, attrs = a\<rparr>"
  by (simp add: inside_square sides_sample_ring) (simp add: sample_ring_def cross_def)

lemma inside_4: "\<not> inside_mask convex_engine sample_boundary \<lparr>geometry = square 530600 180010 2, attrs = a\<rparr>"
  by (simp add: inside_square sides_sample_ring) (simp add: sample_ring_def cross_def)

lemma inside_5: "inside_mask convex_engine sample_boundary \<lparr>geometry = square 529990 180050 2, attrs = a\<rparr>"
  by (simp add: inside_square sides_sample_ring) (simp add: sample_ring_def cross_def)

lemma ccw_square: "0 < s \<Longrightarrow> ccw [(x, y), (x + s, y), (x + s, y + s), (x, y + s)] = [(x, y), (x + s, y), (x + s, y + s), (x, y + s)]"
  apply (simp add: ccw_def area2_def sides_def)
  apply (simp add: field_simps)
  done

lemma intersects_3: "intersects convex_engine sample_boundary (square 530499 179999 2)"
  apply (simp add: convex_engine_def verts_boundary verts_square convex_intersects_def separates_def sides_sample_ring)
  apply (simp add: ccw_def area2_def sides_def sample_ring_def cross_def)
  done

lemma intersects_4: "\<not> intersects convex_engine sample_boundary (square 530600 180010 2)"
  apply (simp add: convex_engine_def verts_boundary verts_square convex_intersects_def separates_def sides_sample_ring)
  apply (simp add: sample_ring_def cross_def)
  done

lemma clip_3:
  "clip_ring sample_ring (verts (square 530499 179999 2))
     = [(530499, 179999), (1591499 / 3, 179999), (530500, 180000), (1591499 / 3, 180001), (530499, 180001)]"
  apply (simp add: clip_ring_def sides_sample_ring verts_square)
  apply (simp add: sample_ring_def)
  apply (simp add: clip_half_def sides_def cross_def cut_def)
  done


lemma ci_3: "convex_intersects (verts sample_boundary) (verts (square 530499 179999 2))"
  using intersects_3 by (simp add: convex_engine_def)

lemma geom_3:
  "geom_of_ring [(530499, 179999), (1591499 / 3, 179999), (530500, 180000), (1591499 / 3, 180001), (530499, 180001)]
     = Polygon [(530499, 179999), (1591499 / 3, 179999), (530500, 180000), (1591499 / 3, 180001), (530499, 180001)]"
  by (simp add: geom_of_ring_def area2_def sides_def)

lemma sample_fully_inside:
  "fully_inside convex_engine sample_boundary sample_exploded
     = sample_exploded\<lparr>rows := [rows sample_exploded ! 0, rows sample_exploded ! 1, rows sample_exploded ! 4]\<rparr>"
  by (simp add: fully_inside_def sample_exploded_def inside_1 inside_2 inside_3 inside_4 inside_5)

lemma sample_edge_candidates:
  "edge_candidates convex_engine sample_boundary sample_exploded
     = sample_exploded\<lparr>rows := [rows sample_exploded ! 2, rows sample_exploded ! 3]\<rparr>"
  by (simp add: edge_candidates_def sample_exploded_def inside_1 inside_2 inside_3 inside_4 inside_5)

lemma sample_edge_intersects:
  "edge_intersects convex_engine sample_boundary sample_exploded
     = sample_exploded\<lparr>rows := [rows sample_exploded ! 2]\<rparr>"
  by (simp add: edge_intersects_def sample_edge_candidates)
     (simp add: sample_exploded_def intersects_3 intersects_4)

lemma sample_gpd_clip:
  "gpd_clip convex_engine (fix_invalid convex_engine (edge_intersects convex_engine sample_boundary sample_exploded))
      sample_boundary
     = Inr (sample_clipped\<lparr>rows := [rows sample_clipped ! 3]\<rparr>)"
  apply (simp add: sample_edge_intersects fix_invalid_def)
  apply (simp add: convex_engine_def convex_clip_def sample_exploded_def ci_3)
  apply (simp add: verts_boundary clip_3 geom_3 sample_clipped_def)
  done

lemma prepared_of_simps:
  "prepared_of b None = b" "prepared_of b (Some (prep b)) = b"
  by (simp_all add: prepared_of_def prep_def)

lemma sample_clip:
  assumes "prepared_of sample_boundary po = sample_boundary"
  shows "clip_to_buffer convex_engine sample_exploded sample_boundary po = Inr sample_clipped"
  unfolding clip_to_buffer_def Let_def assms sample_gpd_clip
  apply (simp add: sample_edge_intersects sample_edge_candidates sample_fully_inside)
  apply (simp add: empty_def sample_exploded_def sample_clipped_def extract_and_dropna_def
        extract_polygons_def List.map_filter_def concat_frames_def)
  done




subsection \<open>C1: what the clip returns lies where\<close>




subsection \<open>C5: clipping twice\<close>



subsection \<open>Jobs that complete\<close>

lemma process_postcode_completes:
  assumes "geocode w pc = Inr location"
      and "clip_rofsw (shapely w)
        (fetch_all (ea w) (snd (create_buffer_bbox (double w) (transform w) (loc_easting location) (loc_northing location) r)))
        (create_buffer_polygon (shapely w) (loc_easting location) (loc_northing location) r)
        (prep (create_buffer_polygon (shapely w) (loc_easting location) (loc_northing location) r)) = Inr oc"
      and "risk_bands (runtime w) (to_file w) oc ''shapefiles''
        [''risk_band_High'', ''risk_band_Medium'', ''risk_band_Low'']
        (initial_results w pc location r
           (fst (create_buffer_bbox (double w) (transform w) (loc_easting location) (loc_northing location) r))
           (snd (create_buffer_bbox (double w) (transform w) (loc_easting location) (loc_northing location) r)), [])
        = Inr st1"
      and "save_buffer (to_file w) location r
        (create_buffer_polygon (shapely w) (loc_easting location) (loc_northing location) r) ''shapefiles''
        (depth_loop (runtime w) (shapely w) (to_file w)
           (fetch_all (ea w) (snd (create_buffer_bbox (double w) (transform w) (loc_easting location) (loc_northing location) r)))
           (create_buffer_polygon (shapely w) (loc_easting location) (loc_northing location) r)
           (prep (create_buffer_polygon (shapely w) (loc_easting location) (loc_northing location) r))
           ''shapefiles'' depth_layers st1) = Inr st3"
  shows "process_postcode w pc r = Inr (package w location r st3)"
  using assms
  by (simp add: process_postcode_def Let_def case_prod_beta del: risk_bands.simps)

lemma risk_band_step_succeeds:
  assumes "\<forall>path g. t path g = None"
      and "map_of ROFSW_LAYERS k = Some cfg"
      and "\<forall>c. oc = Some c \<and> \<not> empty c \<longrightarrow> (\<exists>f. risk_band_filtered py cfg c = Inr f)"
  shows "\<exists>st'. risk_band_step py t oc d k st = Inr st'"
proof (cases oc)
  case None
  with assms(2) show ?thesis by (simp add: risk_band_step_def split: prod.splits)
next
  case (Some c)
  show ?thesis
  proof (cases "empty c")
    case True
    with Some assms(2) show ?thesis by (simp add: risk_band_step_def split: prod.splits)
  next
    case False
    with Some assms(3) obtain f where "risk_band_filtered py cfg c = Inr f" by blast
    with Some False assms(1,2) show ?thesis
      by (simp add: risk_band_step_def save_as_shapefile_def Let_def split: prod.splits)
  qed
qed

lemma risk_bands_succeeds:
  assumes "\<forall>path g. t path g = None"
      and "\<forall>k\<in>set ks. \<exists>cfg. map_of ROFSW_LAYERS k = Some cfg
             \<and> (\<forall>c. oc = Some c \<and> \<not> empty c \<longrightarrow> (\<exists>f. risk_band_filtered py cfg c = Inr f))"
  shows "\<exists>st'. risk_bands py t oc d ks st = Inr st'"
  using assms(2)
proof (induction ks arbitrary: st)
  case Nil
  then show ?case by simp
next
  case (Cons k ks)
  then obtain cfg where "map_of ROFSW_LAYERS k = Some cfg"
    and "\<forall>c. oc = Some c \<and> \<not> empty c \<longrightarrow> (\<exists>f. risk_band_filtered py cfg c = Inr f)"
    by auto
  from risk_band_step_succeeds[OF assms(1) this] obtain st1 where
    "risk_band_step py t oc d k st = Inr st1" by blast
  moreover from Cons.prems have
    "\<forall>k\<in>set ks. \<exists>cfg. map_of ROFSW_LAYERS k = Some cfg
             \<and> (\<forall>c. oc = Some c \<and> \<not> empty c \<longrightarrow> (\<exists>f. risk_band_filtered py cfg c = Inr f))"
    by simp
  from Cons.IH[OF this, of st1] obtain st' where "risk_bands py t oc d ks st1 = Inr st'" by blast
  ultimately show ?case by simp
qed

lemma save_buffer_succeeds:
  assumes "\<forall>path g. t path g = None"
  shows "\<exists>st'. save_buffer t location r b d st = Inr st'"
  using assms
  by (simp add: save_buffer_def save_as_shapefile_def Let_def split: prod.splits)

lemma job_completes:
  assumes geo: "geocode w pc = Inr location"
      and wr: "\<forall>path g. to_file w path g = None"
      and clip: "clip_rofsw (shapely w)
        (fetch_all (ea w) (snd (create_buffer_bbox (double w) (transform w) (loc_easting location) (loc_northing location) r)))
        (create_buffer_polygon (shapely w) (loc_easting location) (loc_northing location) r)
        (prep (create_buffer_polygon (shapely w) (loc_easting location) (loc_northing location) r)) = Inr oc"
      and flt: "\<forall>k\<in>set [''risk_band_High'', ''risk_band_Medium'', ''risk_band_Low''].
              \<exists>cfg. map_of ROFSW_LAYERS k = Some cfg
             \<and> (\<forall>c. oc = Some c \<and> \<not> empty c \<longrightarrow> (\<exists>f. risk_band_filtered (runtime w) cfg c = Inr f))"
  shows "\<exists>res arch. process_postcode w pc r = Inr (res, arch)"
proof -
  from risk_bands_succeeds[OF wr flt] obtain st1 where
    "risk_bands (runtime w) (to_file w) oc ''shapefiles''
        [''risk_band_High'', ''risk_band_Medium'', ''risk_band_Low'']
        (initial_results w pc location r
           (fst (create_buffer_bbox (double w) (transform w) (loc_easting location) (loc_northing location) r))
           (snd (create_buffer_bbox (double w) (transform w) (loc_easting location) (loc_northing location) r)), [])
        = Inr st1" by blast
  moreover from save_buffer_succeeds[OF wr] obtain st3 where
    "save_buffer (to_file w) location r
        (create_buffer_polygon (shapely w) (loc_easting location) (loc_northing location) r) ''shapefiles''
        (depth_loop (runtime w) (shapely w) (to_file w)
           (fetch_all (ea w) (snd (create_buffer_bbox (double w) (transform w) (loc_easting location) (loc_northing location) r)))
           (create_buffer_polygon (shapely w) (loc_easting location) (loc_northing location) r)
           (prep (create_buffer_polygon (shapely w) (loc_easting location) (loc_northing location) r))
           ''shapefiles'' depth_layers st1) = Inr st3" by blast
  ultimately have "process_postcode w pc r = Inr (package w location r st3)"
    using process_postcode_completes[OF geo clip] by blast
  then show ?thesis by (metis surj_pair)
qed

subsection \<open>The sample job, evaluated\<close>

lemma sample_geocode: "geocode (sample_world p) ''SW1A 1AA'' = Inr sample_location"
  by (simp add: sample_world_def)

lemma sample_fields:
  "shapely (sample_world p) = convex_engine" "ea (sample_world p) = sample_remote p"
  "runtime (sample_world p) = ascii_python" "to_file (sample_world p) = (\<lambda>path g. None)"
  by (simp_all add: sample_world_def)

lemma sample_buffer:
  "create_buffer_polygon (shapely (sample_world p)) (loc_easting sample_location)
      (loc_northing sample_location) 500 = sample_boundary"
  by (simp add: sample_world_def sample_location_def sample_boundary_def)

lemma sample_rofsw_filters:
  "\<forall>k\<in>set [''risk_band_High'', ''risk_band_Medium'', ''risk_band_Low''].
      \<exists>cfg. map_of ROFSW_LAYERS k = Some cfg
        \<and> (\<forall>c. Some sample_clipped = Some c \<and> \<not> empty c
               \<longrightarrow> (\<exists>f. risk_band_filtered ascii_python cfg c = Inr f))"
proof -
  have acc: "str_accessor ascii_python (column sample_clipped ''risk_band'')"
    by (simp add: ascii_python_def column_def sample_clipped_def cell_def is_str_def)
  have col: "''risk_band'' \<in> set (columns sample_clipped)"
    by (simp add: sample_clipped_def)
  have "\<exists>f. risk_band_filtered ascii_python (snd (ROFSW_LAYERS ! 0)) sample_clipped = Inr f"
       "\<exists>f. risk_band_filtered ascii_python (snd (ROFSW_LAYERS ! 1)) sample_clipped = Inr f"
       "\<exists>f. risk_band_filtered ascii_python (snd (ROFSW_LAYERS ! 2)) sample_clipped = Inr f"
    using risk_band_filtered_strings[OF _ _ col acc, of "snd (ROFSW_LAYERS ! 0)" "''High''"]
          risk_band_filtered_strings[OF _ _ col acc, of "snd (ROFSW_LAYERS ! 1)" "''Medium''"]
          risk_band_filtered_strings[OF _ _ col acc, of "snd (ROFSW_LAYERS ! 2)" "''Low''"]
    by (simp_all add: ROFSW_LAYERS_def)
  with risk_configs show ?thesis by simp
qed

lemma sample_fetch_ok:
  "map_of EA_LAYER_IDS name = Some layer_id \<Longrightarrow>
   fetch_layer (sample_remote post_ok) bbox name = sample_exploded"
  by (simp add: fetch_layer_def download_sample)

lemma rofsw_unique: "''rofsw'' \<in> set unique_layers"
  by (simp add: unique_layers_eq EA_LAYER_IDS_def)

lemma sample_clip_rofsw_ok:
  "clip_rofsw convex_engine (fetch_all (sample_remote post_ok) bbox) sample_boundary (prep sample_boundary)
     = Inr (Some sample_clipped)"
proof -
  have "raw_get (fetch_all (sample_remote post_ok) bbox) ''rofsw'' = sample_exploded"
    using sample_fetch_ok[OF rofsw_id] by (simp add: raw_get_fetch_all rofsw_unique)
  moreover have "\<not> empty sample_exploded" by (simp add: empty_def sample_exploded_def)
  moreover have "clip_to_buffer convex_engine sample_exploded sample_boundary (Some (prep sample_boundary))
                   = Inr sample_clipped"
    by (rule sample_clip) (rule prepared_of_simps)
  ultimately show ?thesis by (simp add: clip_rofsw_def)
qed

lemma sample_job_ok:
  "\<exists>res arch. process_postcode (sample_world post_ok) ''SW1A 1AA'' 500 = Inr (res, arch)"
proof (rule job_completes[OF sample_geocode])
  show "\<forall>path g. to_file (sample_world post_ok) path g = None"
    by (simp add: sample_fields)
  show "clip_rofsw (shapely (sample_world post_ok))
        (fetch_all (ea (sample_world post_ok))
           (snd (create_buffer_bbox (double (sample_world post_ok)) (transform (sample_world post_ok))
                   (loc_easting sample_location) (loc_northing sample_location) 500)))
        (create_buffer_polygon (shapely (sample_world post_ok)) (loc_easting sample_location) (loc_northing sample_location) 500)
        (prep (create_buffer_polygon (shapely (sample_world post_ok)) (loc_easting sample_location) (loc_northing sample_location) 500))
        = Inr (Some sample_clipped)"
    unfolding sample_buffer unfolding sample_fields by (rule sample_clip_rofsw_ok)
  show "\<forall>k\<in>set [''risk_band_High'', ''risk_band_Medium'', ''risk_band_Low''].
       \<exists>cfg. map_of ROFSW_LAYERS k = Some cfg \<and>
             (\<forall>c. Some sample_clipped = Some c \<and> \<not> empty c \<longrightarrow>
                  (\<exists>f. risk_band_filtered (runtime (sample_world post_ok)) cfg c = Inr f))"
    unfolding sample_fields by (rule sample_rofsw_filters)
qed

subsection \<open>C9: the search boundary is always reported\<close>

text \<open>
  C9. The result record of every job that completes has an entry \<open>search_buffer\<close>
  in its layers with feature count 1 and status \<open>ok\<close>, whatever the remote layers
  returned, and \<open>total_features\<close> is the sum of the feature counts of all entries of the
  layers, this entry's 1 included.
\<close>

theorem search_buffer_always_reported:
  assumes "process_postcode w pc r = Inr (res, arch)"
  shows "\<exists>sb. map_of (layers res) ''search_buffer'' = Some sb
            \<and> features sb = 1 \<and> status sb = ''ok''
            \<and> total_features res = Some (sum_features (layers res))
            \<and> sum_features (layers res)
                = features sb + sum_features (filter (\<lambda>(k, l). k \<noteq> ''search_buffer'') (layers res))"
proof -
  from assms obtain location where geo: "geocode w pc = Inr location"
    by (auto simp: process_postcode_def split: sum.splits)
  from process_postcode_stages[OF assms geo] obtain oc st1 st3 d0 where
    rb: "risk_bands (runtime w) (to_file w) oc ''shapefiles'' [''risk_band_High'', ''risk_band_Medium'', ''risk_band_Low'']
        (initial_results w pc location r
           (fst (create_buffer_bbox (double w) (transform w) (loc_easting location) (loc_northing location) r))
           (snd (create_buffer_bbox (double w) (transform w) (loc_easting location) (loc_northing location) r)), [])
        = Inr st1"
    and sb: "save_buffer (to_file w) location r
        (create_buffer_polygon (shapely w) (loc_easting location) (loc_northing location) r) ''shapefiles'' d0 = Inr st3"
    and d0: "d0 = depth_loop (runtime w) (shapely w) (to_file w)
           (fetch_all (ea w) (snd (create_buffer_bbox (double w) (transform w) (loc_easting location) (loc_northing location) r)))
           (create_buffer_polygon (shapely w) (loc_easting location) (loc_northing location) r)
           (prep (create_buffer_polygon (shapely w) (loc_easting location) (loc_northing location) r))
           ''shapefiles'' depth_layers st1"
    and pk: "package w location r st3 = (res, arch)"
    by blast
  have "distinct (map fst (layers (fst st1)))"
    using risk_bands_distinct[OF rb] by (simp add: initial_results_def)
  then have dd: "distinct (map fst (layers (fst d0)))"
    unfolding d0 by (rule depth_loop_distinct)
  from save_buffer_layers[OF sb]
  have l3: "layers (fst st3) = AList.update ''search_buffer'' (search_buffer_result location r) (layers (fst d0))"
    by simp
  from package_layers[OF pk] have lr: "layers res = layers (fst st3)"
    and tot: "total_features res = Some (sum_features (layers (fst st3)))" by simp_all
  have m: "map_of (layers res) ''search_buffer'' = Some (search_buffer_result location r)"
    by (simp add: lr l3 update_conv')
  have dist: "distinct (map fst (layers res))"
    by (simp add: lr l3 distinct_update dd)
  from sum_features_split[OF dist m] m tot lr show ?thesis
    by (simp add: search_buffer_result_def)
qed

theorem search_buffer_always_reported_witness:
  "\<exists>res arch. process_postcode (sample_world post_ok) ''SW1A 1AA'' 500 = Inr (res, arch)
     \<and> (\<exists>sb. map_of (layers res) ''search_buffer'' = Some sb
            \<and> features sb = 1 \<and> status sb = ''ok''
            \<and> total_features res = Some (sum_features (layers res))
            \<and> sum_features (layers res)
                = features sb + sum_features (filter (\<lambda>(k, l). k \<noteq> ''search_buffer'') (layers res)))"
proof -
  from sample_job_ok obtain res arch where
    run: "process_postcode (sample_world post_ok) ''SW1A 1AA'' 500 = Inr (res, arch)" by blast
  from search_buffer_always_reported[OF run] run show ?thesis by blast
qed

subsection \<open>C10: a filter field that is not a column\<close>



subsection \<open>C4: the three risk bands partition the clipped collection\<close>








subsection \<open>A source whose download raises\<close>

lemma risk_bands_none:
  "\<forall>k\<in>set ks. map_of ROFSW_LAYERS k \<noteq> None \<Longrightarrow> \<exists>st'. risk_bands py t None d ks st = Inr st'"
proof (induction ks arbitrary: st)
  case Nil
  then show ?case by simp
next
  case (Cons k ks)
  then obtain cfg where "map_of ROFSW_LAYERS k = Some cfg" by auto
  then have "\<exists>st1. risk_band_step py t None d k st = Inr st1"
    by (cases st) (simp add: risk_band_step_def)
  then obtain st1 where "risk_band_step py t None d k st = Inr st1" by blast
  moreover from Cons.prems have "\<forall>k\<in>set ks. map_of ROFSW_LAYERS k \<noteq> None" by simp
  from Cons.IH[OF this, of st1] obtain st' where "risk_bands py t None d ks st1 = Inr st'" by blast
  ultimately show ?case by simp
qed

lemma save_buffer_any_state:
  "save_buffer t location r b d st = Inr st3 \<Longrightarrow> \<exists>st3'. save_buffer t location r b d st' = Inr st3'"
  by (auto simp: save_buffer_def save_as_shapefile_def Let_def
        split: prod.splits sum.splits if_splits option.splits)

lemma clip_rofsw_cong:
  "raw_get raw1 ''rofsw'' = raw_get raw2 ''rofsw'' \<Longrightarrow> clip_rofsw e raw1 b p = clip_rofsw e raw2 b p"
  by (simp add: clip_rofsw_def)

lemma concat_map_fewer:
  "\<forall>a\<in>set xs. f a = g a \<or> f a = [] \<Longrightarrow>
   set (concat (map f xs)) \<subseteq> set (concat (map g xs))
   \<and> length (concat (map f xs)) \<le> length (concat (map g xs))"
  by (induction xs) auto

lemma failed_source_raw:
  assumes id: "map_of EA_LAYER_IDS x = Some layer_id"
      and fail: "snd (download_ea_layer (rem\<lparr>post := post'\<rparr>) x bbox 3) = Inl err"
      and same: "\<forall>url poly j. url \<noteq> query_url layer_id \<longrightarrow> post' url poly j = post rem url poly j"
  shows "raw_get (fetch_all (rem\<lparr>post := post'\<rparr>) bbox) x = GeoDataFrame"
    and "y \<noteq> x \<Longrightarrow> raw_get (fetch_all (rem\<lparr>post := post'\<rparr>) bbox) y = raw_get (fetch_all rem bbox) y"
proof -
  from fail have "fetch_layer (rem\<lparr>post := post'\<rparr>) bbox x = GeoDataFrame"
    by (simp add: fetch_layer_def)
  then show "raw_get (fetch_all (rem\<lparr>post := post'\<rparr>) bbox) x = GeoDataFrame"
    by (rule raw_get_empty)
  show "y \<noteq> x \<Longrightarrow> raw_get (fetch_all (rem\<lparr>post := post'\<rparr>) bbox) y = raw_get (fetch_all rem bbox) y"
    by (rule raw_get_other[OF id same])
qed

lemma failed_source_completes:
  assumes run0: "process_postcode w pc r = Inr (res0, arch0)"
      and geo: "geocode w pc = Inr location"
      and id: "map_of EA_LAYER_IDS x = Some layer_id"
      and fail: "snd (download_ea_layer ((ea w)\<lparr>post := post'\<rparr>) x
                   (snd (create_buffer_bbox (double w) (transform w) (loc_easting location) (loc_northing location) r)) 3)
                 = Inl err"
      and same: "\<forall>url poly j. url \<noteq> query_url layer_id \<longrightarrow> post' url poly j = post (ea w) url poly j"
  shows "\<exists>res arch. process_postcode (w\<lparr>ea := (ea w)\<lparr>post := post'\<rparr>\<rparr>) pc r = Inr (res, arch)"
proof -
  let ?wf = "w\<lparr>ea := (ea w)\<lparr>post := post'\<rparr>\<rparr>"
  let ?wgs = "snd (create_buffer_bbox (double w) (transform w) (loc_easting location) (loc_northing location) r)"
  let ?bng = "fst (create_buffer_bbox (double w) (transform w) (loc_easting location) (loc_northing location) r)"
  let ?b = "create_buffer_polygon (shapely w) (loc_easting location) (loc_northing location) r"
  let ?rawf = "fetch_all ((ea w)\<lparr>post := post'\<rparr>) ?wgs"
  let ?raw0 = "fetch_all (ea w) ?wgs"
  let ?ks = "[''risk_band_High'', ''risk_band_Medium'', ''risk_band_Low'']"
  from process_postcode_stages[OF run0 geo] obtain oc st1 st3 where
    c0: "clip_rofsw (shapely w) ?raw0 ?b (prep ?b) = Inr oc"
    and rb0: "risk_bands (runtime w) (to_file w) oc ''shapefiles'' ?ks
                (initial_results w pc location r ?bng ?wgs, []) = Inr st1"
    and sb0: "save_buffer (to_file w) location r ?b ''shapefiles''
                (depth_loop (runtime w) (shapely w) (to_file w) ?raw0 ?b (prep ?b) ''shapefiles'' depth_layers st1)
              = Inr st3"
    by blast
  note raw = failed_source_raw[OF id fail same]
  have "\<exists>ocf st1f. clip_rofsw (shapely w) ?rawf ?b (prep ?b) = Inr ocf
          \<and> risk_bands (runtime w) (to_file w) ocf ''shapefiles'' ?ks
                (initial_results w pc location r ?bng ?wgs, []) = Inr st1f"
  proof (cases "x = ''rofsw''")
    case True
    with raw(1) have "clip_rofsw (shapely w) ?rawf ?b (prep ?b) = Inr None"
      by (simp add: clip_rofsw_empty)
    moreover have "\<forall>k\<in>set ?ks. map_of ROFSW_LAYERS k \<noteq> None"
      by (simp add: risk_configs)
    from risk_bands_none[OF this] obtain st1f where
      "risk_bands (runtime w) (to_file w) None ''shapefiles'' ?ks
                (initial_results w pc location r ?bng ?wgs, []) = Inr st1f" by blast
    ultimately show ?thesis by blast
  next
    case False
    then have "raw_get ?rawf ''rofsw'' = raw_get ?raw0 ''rofsw''" using raw(2) by simp
    from clip_rofsw_cong[OF this] c0 have "clip_rofsw (shapely w) ?rawf ?b (prep ?b) = Inr oc" by simp
    with rb0 show ?thesis by blast
  qed
  then obtain ocf st1f where
    cf: "clip_rofsw (shapely w) ?rawf ?b (prep ?b) = Inr ocf"
    and rbf: "risk_bands (runtime w) (to_file w) ocf ''shapefiles'' ?ks
                (initial_results w pc location r ?bng ?wgs, []) = Inr st1f"
    by blast
  from save_buffer_any_state[OF sb0] obtain st3f where
    sbf: "save_buffer (to_file w) location r ?b ''shapefiles''
                (depth_loop (runtime w) (shapely w) (to_file w) ?rawf ?b (prep ?b) ''shapefiles'' depth_layers st1f)
              = Inr st3f"
    by blast
  have ini: "initial_results ?wf pc location r ?bng ?wgs = initial_results w pc location r ?bng ?wgs"
    by (simp add: initial_results_def)
  have "process_postcode ?wf pc r = Inr (package ?wf location r st3f)"
  proof (rule process_postcode_completes[where oc = ocf and ?st1.0 = st1f])
    show "geocode ?wf pc = Inr location" using geo by simp
    show "clip_rofsw (shapely ?wf)
        (fetch_all (ea ?wf) (snd (create_buffer_bbox (double ?wf) (transform ?wf) (loc_easting location) (loc_northing location) r)))
        (create_buffer_polygon (shapely ?wf) (loc_easting location) (loc_northing location) r)
        (prep (create_buffer_polygon (shapely ?wf) (loc_easting location) (loc_northing location) r)) = Inr ocf"
      using cf by simp
    show "risk_bands (runtime ?wf) (to_file ?wf) ocf ''shapefiles'' ?ks
        (initial_results ?wf pc location r
           (fst (create_buffer_bbox (double ?wf) (transform ?wf) (loc_easting location) (loc_northing location) r))
           (snd (create_buffer_bbox (double ?wf) (transform ?wf) (loc_easting location) (loc_northing location) r)), [])
        = Inr st1f"
      using rbf ini by simp
    show "save_buffer (to_file ?wf) location r
        (create_buffer_polygon (shapely ?wf) (loc_easting location) (loc_northing location) r) ''shapefiles''
        (depth_loop (runtime ?wf) (shapely ?wf) (to_file ?wf)
           (fetch_all (ea ?wf) (snd (create_buffer_bbox (double ?wf) (transform ?wf) (loc_easting location) (loc_northing location) r)))
           (create_buffer_polygon (shapely ?wf) (loc_easting location) (loc_northing location) r)
           (prep (create_buffer_polygon (shapely ?wf) (loc_easting location) (loc_northing location) r))
           ''shapefiles'' depth_layers st1f) = Inr st3f"
      using sbf by simp
  qed
  then show ?thesis by (metis surj_pair)
qed

lemma failed_source_layers:
  assumes run0: "process_postcode w pc r = Inr (res0, arch0)"
      and runf: "process_postcode (w\<lparr>ea := (ea w)\<lparr>post := post'\<rparr>\<rparr>) pc r = Inr (res, arch)"
      and geo: "geocode w pc = Inr location"
      and id: "map_of EA_LAYER_IDS x = Some layer_id"
      and fail: "snd (download_ea_layer ((ea w)\<lparr>post := post'\<rparr>) x
                   (snd (create_buffer_bbox (double w) (transform w) (loc_easting location) (loc_northing location) r)) 3)
                 = Inl err"
      and same: "\<forall>url poly j. url \<noteq> query_url layer_id \<longrightarrow> post' url poly j = post (ea w) url poly j"
      and kc: "(k, cfg) \<in> set ROFSW_LAYERS"
  shows "map_of (layers res) k = (if ea_layer cfg = x then Some (no_data cfg) else map_of (layers res0) k)"
proof -
  let ?wf = "w\<lparr>ea := (ea w)\<lparr>post := post'\<rparr>\<rparr>"
  let ?wgs = "snd (create_buffer_bbox (double w) (transform w) (loc_easting location) (loc_northing location) r)"
  let ?bng = "fst (create_buffer_bbox (double w) (transform w) (loc_easting location) (loc_northing location) r)"
  let ?b = "create_buffer_polygon (shapely w) (loc_easting location) (loc_northing location) r"
  let ?rawf = "fetch_all ((ea w)\<lparr>post := post'\<rparr>) ?wgs"
  let ?raw0 = "fetch_all (ea w) ?wgs"
  let ?ks = "[''risk_band_High'', ''risk_band_Medium'', ''risk_band_Low'']"
  note raw = failed_source_raw[OF id fail same]
  have geof: "geocode ?wf pc = Inr location" using geo by simp
  have ini: "initial_results ?wf pc location r ?bng ?wgs = initial_results w pc location r ?bng ?wgs"
    by (simp add: initial_results_def)
  show ?thesis
  proof (cases "ea_layer cfg = x")
    case True
    have "raw_get (fetch_all (ea ?wf) (snd (create_buffer_bbox (double ?wf) (transform ?wf)
             (loc_easting location) (loc_northing location) r))) x = GeoDataFrame"
      using raw(1) by simp
    from no_data_layers[OF runf geof this kc True] True show ?thesis by simp
  next
    case False
    from layer_cases[OF kc] show ?thesis
    proof
      assume a: "k \<in> set ?ks \<and> map_of ROFSW_LAYERS k = Some cfg \<and> ea_layer cfg = ''rofsw''"
      with False have xr: "''rofsw'' \<noteq> x" by auto
      from a have kin: "k \<in> set ?ks" by simp
      from risk_layer_result[OF run0 geo kin] obtain oc st1 where
        c0: "clip_rofsw (shapely w) ?raw0 ?b (prep ?b) = Inr oc"
        and rb0: "risk_bands (runtime w) (to_file w) oc ''shapefiles'' ?ks
                (initial_results w pc location r ?bng ?wgs, []) = Inr st1"
        and l0: "map_of (layers res0) k = map_of (layers (fst st1)) k"
        by blast
      from risk_layer_result[OF runf geof kin] have
        "\<exists>ocf st1f. clip_rofsw (shapely w) ?rawf ?b (prep ?b) = Inr ocf
           \<and> risk_bands (runtime w) (to_file w) ocf ''shapefiles'' ?ks
                (initial_results w pc location r ?bng ?wgs, []) = Inr st1f
           \<and> map_of (layers res) k = map_of (layers (fst st1f)) k"
        by (simp add: ini del: risk_bands.simps)
      then obtain ocf st1f where
        cf: "clip_rofsw (shapely w) ?rawf ?b (prep ?b) = Inr ocf"
        and rbf: "risk_bands (runtime w) (to_file w) ocf ''shapefiles'' ?ks
                (initial_results w pc location r ?bng ?wgs, []) = Inr st1f"
        and lf: "map_of (layers res) k = map_of (layers (fst st1f)) k"
        by blast
      from raw(2)[OF xr] have "raw_get ?rawf ''rofsw'' = raw_get ?raw0 ''rofsw''" .
      from clip_rofsw_cong[OF this] c0 cf have "ocf = oc" by simp
      with rb0 rbf have "st1f = st1" by simp
      with l0 lf False show ?thesis by simp
    next
      assume a: "(k, cfg) \<in> set depth_layers \<and> ea_layer cfg \<noteq> ''rofsw''"
      then have kd: "(k, cfg) \<in> set depth_layers" by simp
      from raw(2)[OF False] have "raw_get ?rawf (ea_layer cfg) = raw_get ?raw0 (ea_layer cfg)" .
      with depth_layer_result[OF run0 geo kd] depth_layer_result[OF runf geof kd] False
      show ?thesis by simp
    qed
  qed
qed

lemma failed_source_errors:
  assumes run0: "process_postcode w pc r = Inr (res0, arch0)"
      and runf: "process_postcode (w\<lparr>ea := (ea w)\<lparr>post := post'\<rparr>\<rparr>) pc r = Inr (res, arch)"
      and geo: "geocode w pc = Inr location"
      and id: "map_of EA_LAYER_IDS x = Some layer_id"
      and fail: "snd (download_ea_layer ((ea w)\<lparr>post := post'\<rparr>) x
                   (snd (create_buffer_bbox (double w) (transform w) (loc_easting location) (loc_northing location) r)) 3)
                 = Inl err"
      and same: "\<forall>url poly j. url \<noteq> query_url layer_id \<longrightarrow> post' url poly j = post (ea w) url poly j"
  shows "set (errors res) \<subseteq> set (errors res0) \<and> length (errors res) \<le> length (errors res0)"
proof -
  let ?wf = "w\<lparr>ea := (ea w)\<lparr>post := post'\<rparr>\<rparr>"
  let ?wgs = "snd (create_buffer_bbox (double w) (transform w) (loc_easting location) (loc_northing location) r)"
  let ?b = "create_buffer_polygon (shapely w) (loc_easting location) (loc_northing location) r"
  let ?rawf = "fetch_all ((ea w)\<lparr>post := post'\<rparr>) ?wgs"
  let ?raw0 = "fetch_all (ea w) ?wgs"
  let ?F = "\<lambda>raw. \<lambda>(k, cfg).
         case error (snd (fst (process_single_layer (runtime w) (shapely w) (to_file w) k cfg
                (raw_get raw (ea_layer cfg)) ?b (prep ?b) ''shapefiles'' []))) of
           Some msg \<Rightarrow> if msg \<noteq> [] then [k @ '': '' @ msg] else []
         | None \<Rightarrow> []"
  note raw = failed_source_raw[OF id fail same]
  have geof: "geocode ?wf pc = Inr location" using geo by simp
  from job_errors[OF run0 geo] have e0: "errors res0 = concat (map (?F ?raw0) depth_layers)" .
  from job_errors[OF runf geof] have ef: "errors res = concat (map (?F ?rawf) depth_layers)" by simp
  have "\<forall>a\<in>set depth_layers. ?F ?rawf a = ?F ?raw0 a \<or> ?F ?rawf a = []"
  proof
    fix a assume "a \<in> set depth_layers"
    obtain k cfg where a: "a = (k, cfg)" by (cases a)
    show "?F ?rawf a = ?F ?raw0 a \<or> ?F ?rawf a = []"
    proof (cases "ea_layer cfg = x")
      case True
      with raw(1) have "raw_get ?rawf (ea_layer cfg) = GeoDataFrame" by simp
      then have "?F ?rawf a = []"
        by (simp add: a psl_empty empty_GeoDataFrame no_data_def)
      then show ?thesis ..
    next
      case False
      from raw(2)[OF False] have "?F ?rawf a = ?F ?raw0 a" by (simp add: a)
      then show ?thesis ..
    qed
  qed
  from concat_map_fewer[OF this] e0 ef show ?thesis by simp
qed

lemma psl_no_error:
  assumes "filter_field cfg = None" and "clip_to_buffer e raw b (Some p) = Inr out"
      and "\<forall>path g. t path g = None"
  shows "error (snd (fst (process_single_layer py e t k cfg raw b p d fs))) = None"
  using assms
  by (simp add: process_single_layer_def process_single_layer_body_def save_as_shapefile_def
        no_data_def saved_result_def Let_def)

lemma depth_sources:
  "list_all (\<lambda>(k, cfg). filter_field cfg = None \<and> ea_layer cfg \<in> set unique_layers
                \<and> map_of EA_LAYER_IDS (ea_layer cfg) \<noteq> None) depth_layers"
  by (simp add: depth_layers_eq ROFSW_LAYERS_def EA_LAYER_IDS_def unique_layers_eq)

lemma sample_errors_ok:
  assumes run: "process_postcode (sample_world post_ok) ''SW1A 1AA'' 500 = Inr (res0, arch0)"
  shows "errors res0 = []"
proof -
  have "(case error (snd (fst (process_single_layer ascii_python convex_engine (\<lambda>path g. None) k cfg
                (raw_get (fetch_all (sample_remote post_ok) bbox) (ea_layer cfg))
                sample_boundary (prep sample_boundary) ''shapefiles'' []))) of
           Some msg \<Rightarrow> if msg \<noteq> [] then [k @ '': '' @ msg] else []
         | None \<Rightarrow> []) = []"
    if kc: "(k, cfg) \<in> set depth_layers" for k cfg bbox
  proof -
    from kc depth_sources have ff: "filter_field cfg = None"
      and u: "ea_layer cfg \<in> set unique_layers"
      and i: "map_of EA_LAYER_IDS (ea_layer cfg) \<noteq> None"
      unfolding list_all_iff by auto
    from i obtain layer_id where "map_of EA_LAYER_IDS (ea_layer cfg) = Some layer_id" by blast
    from sample_fetch_ok[OF this] u
    have raw: "raw_get (fetch_all (sample_remote post_ok) bbox) (ea_layer cfg) = sample_exploded"
      by (simp add: raw_get_fetch_all)
    have c: "clip_to_buffer convex_engine sample_exploded sample_boundary (Some (prep sample_boundary))
               = Inr sample_clipped"
      by (rule sample_clip) (rule prepared_of_simps)
    from psl_no_error[OF ff c, of "\<lambda>path g. None"] show ?thesis
      unfolding raw by simp
  qed
  note inner = this
  have "\<forall>a\<in>set depth_layers. (\<lambda>(k, cfg).
         case error (snd (fst (process_single_layer ascii_python convex_engine (\<lambda>path g. None) k cfg
                (raw_get (fetch_all (sample_remote post_ok)
                    (snd (create_buffer_bbox (double (sample_world post_ok)) (transform (sample_world post_ok))
                           (loc_easting sample_location) (loc_northing sample_location) 500)))
                   (ea_layer cfg))
                sample_boundary (prep sample_boundary) ''shapefiles'' []))) of
           Some msg \<Rightarrow> if msg \<noteq> [] then [k @ '': '' @ msg] else []
         | None \<Rightarrow> []) a = []"
  proof
    fix a assume m: "a \<in> set depth_layers"
    obtain k cfg where a: "a = (k, cfg)" by (cases a)
    from m a have "(k, cfg) \<in> set depth_layers" by simp
    from inner[OF this, of "snd (create_buffer_bbox (double (sample_world post_ok)) (transform (sample_world post_ok))
                           (loc_easting sample_location) (loc_northing sample_location) 500)"]
    show "(\<lambda>(k, cfg).
         case error (snd (fst (process_single_layer ascii_python convex_engine (\<lambda>path g. None) k cfg
                (raw_get (fetch_all (sample_remote post_ok)
                    (snd (create_buffer_bbox (double (sample_world post_ok)) (transform (sample_world post_ok))
                           (loc_easting sample_location) (loc_northing sample_location) 500)))
                   (ea_layer cfg))
                sample_boundary (prep sample_boundary) ''shapefiles'' []))) of
           Some msg \<Rightarrow> if msg \<noteq> [] then [k @ '': '' @ msg] else []
         | None \<Rightarrow> []) a = []"
      unfolding a by simp
  qed
  with job_errors[OF run sample_geocode] show ?thesis
    unfolding sample_buffer unfolding sample_fields by simp
qed

lemma sample_same:
  "\<forall>url poly j. url \<noteq> query_url ''8aa5d9cb-2a54-4480-b7d6-0aaef9efa576''
      \<longrightarrow> post_one_down url poly j = post (ea (sample_world post_ok)) url poly j"
  by (simp add: post_one_down_def sample_world_def sample_remote_def)

lemma sample_world_down:
  "(sample_world post_ok)\<lparr>ea := (ea (sample_world post_ok))\<lparr>post := post_one_down\<rparr>\<rparr>
     = sample_world post_one_down"
  by (simp add: sample_world_def sample_remote_def)

lemma sample_remote_down:
  "(ea (sample_world post_ok))\<lparr>post := post_one_down\<rparr> = sample_remote post_one_down"
  by (simp add: sample_world_def sample_remote_def)

lemma download_down:
  "download_ea_layer (sample_remote post_one_down) ''rofsw_0_2m_depth'' bbox 3
     = ([Post 1, Sleep 3, Post 2, Sleep 6, Post 3], Inl ''503 Server Error'')"
proof -
  let ?send = "post (sample_remote post_one_down) (query_url ''8aa5d9cb-2a54-4480-b7d6-0aaef9efa576'')
                 (query_polygon bbox)"
  have "?send 1 = HttpError ''503 Server Error''" "?send 2 = HttpError ''503 Server Error''"
       "?send 3 = HttpError ''503 Server Error''"
    by (simp_all add: sample_remote_def post_one_down_def)
  from retry_exhausted[of ?send, OF this] depth02_id show ?thesis
    by (simp add: download_ea_layer_def)
qed

lemma download_up:
  assumes "map_of EA_LAYER_IDS name = Some layer_id" and "name \<noteq> ''rofsw_0_2m_depth''"
  shows "download_ea_layer (sample_remote post_one_down) name bbox 3 = ([Post 1], Inr sample_exploded)"
proof -
  have "layer_id \<noteq> ''8aa5d9cb-2a54-4480-b7d6-0aaef9efa576''"
  proof
    assume "layer_id = ''8aa5d9cb-2a54-4480-b7d6-0aaef9efa576''"
    with assms(1) have "map_of EA_LAYER_IDS name = Some ''8aa5d9cb-2a54-4480-b7d6-0aaef9efa576''"
      by simp
    from ids_inj[OF this depth02_id] assms(2) show False by simp
  qed
  then have "query_url layer_id \<noteq> query_url ''8aa5d9cb-2a54-4480-b7d6-0aaef9efa576''"
    using query_url_inj by blast
  then have "post (sample_remote post_one_down) (query_url layer_id) (query_polygon bbox) 1
          = HttpResponse (replicate 120 (CHR ''z''))"
    by (simp add: sample_remote_def post_one_down_def post_ok_def)
  from retry_first[of "post (sample_remote post_one_down) (query_url layer_id) (query_polygon bbox)", OF this]
    assms(1)
  show ?thesis by (simp add: download_ea_layer_def parse_sample)
qed

lemma sample_fail:
  "snd (download_ea_layer ((ea (sample_world post_ok))\<lparr>post := post_one_down\<rparr>) ''rofsw_0_2m_depth''
          (snd (create_buffer_bbox (double (sample_world post_ok)) (transform (sample_world post_ok))
                  (loc_easting sample_location) (loc_northing sample_location) 500)) 3)
     = Inl ''503 Server Error''"
  unfolding sample_remote_down download_down by simp

lemma depth02_layer:
  "(''depth_0.2m'', snd (ROFSW_LAYERS ! 3)) \<in> set ROFSW_LAYERS"
  "ea_layer (snd (ROFSW_LAYERS ! 3)) = ''rofsw_0_2m_depth''"
  "(''depth_0.3m'', snd (ROFSW_LAYERS ! 4)) \<in> set ROFSW_LAYERS"
  "ea_layer (snd (ROFSW_LAYERS ! 4)) = ''rofsw_0_3m_depth''"
  by (simp_all add: ROFSW_LAYERS_def)

subsection \<open>C3: one source down\<close>

text \<open>
  C3. When the download of one remote layer raises after its attempts (lines 459-471)
  in a job that completes otherwise, the job completes as well. The failure is logged
  and the data of that source is the empty collection; nothing is appended to the
  \<open>errors\<close> of the result, which holds only the messages of depth layers whose own
  processing raised (lines 513-521) and so has no more entries than without the
  failure. Every layer fed by the failed source reports \<open>no_data\<close> with no feature, and
  every other layer reports exactly what it reports when the download does not fail.
\<close>

theorem fetch_failure_is_contained:
  assumes run0: "process_postcode w pc r = Inr (res0, arch0)"
      and geo: "geocode w pc = Inr location"
      and id: "map_of EA_LAYER_IDS x = Some layer_id"
      and fail: "snd (download_ea_layer ((ea w)\<lparr>post := post'\<rparr>) x
                   (snd (create_buffer_bbox (double w) (transform w) (loc_easting location) (loc_northing location) r)) 3)
                 = Inl err"
      and same: "\<forall>url poly j. url \<noteq> query_url layer_id \<longrightarrow> post' url poly j = post (ea w) url poly j"
  shows "\<exists>res arch. process_postcode (w\<lparr>ea := (ea w)\<lparr>post := post'\<rparr>\<rparr>) pc r = Inr (res, arch)
      \<and> (\<forall>(k, cfg)\<in>set ROFSW_LAYERS.
            map_of (layers res) k
              = (if ea_layer cfg = x then Some (no_data cfg) else map_of (layers res0) k))
      \<and> set (errors res) \<subseteq> set (errors res0)
      \<and> length (errors res) \<le> length (errors res0)"
proof -
  from failed_source_completes[OF run0 geo id fail same] obtain res arch where
    runf: "process_postcode (w\<lparr>ea := (ea w)\<lparr>post := post'\<rparr>\<rparr>) pc r = Inr (res, arch)" by blast
  have "\<forall>(k, cfg)\<in>set ROFSW_LAYERS.
            map_of (layers res) k
              = (if ea_layer cfg = x then Some (no_data cfg) else map_of (layers res0) k)"
    using failed_source_layers[OF run0 runf geo id fail same] by blast
  with runf failed_source_errors[OF run0 runf geo id fail same] show ?thesis by blast
qed

theorem fetch_failure_is_contained_witness:
  "\<exists>res0 arch0 res arch.
       process_postcode (sample_world post_ok) ''SW1A 1AA'' 500 = Inr (res0, arch0)
     \<and> process_postcode (sample_world post_one_down) ''SW1A 1AA'' 500 = Inr (res, arch)
     \<and> map_of (layers res) ''depth_0.2m'' = Some (no_data (snd (ROFSW_LAYERS ! 3)))
     \<and> map_of (layers res) ''depth_0.3m'' = map_of (layers res0) ''depth_0.3m''
     \<and> set (errors res) \<subseteq> set (errors res0)
     \<and> length (errors res) \<le> length (errors res0)"
proof -
  from sample_job_ok obtain res0 arch0 where
    run0: "process_postcode (sample_world post_ok) ''SW1A 1AA'' 500 = Inr (res0, arch0)" by blast
  from fetch_failure_is_contained[OF run0 sample_geocode depth02_id sample_fail sample_same]
  obtain res arch where
    runf: "process_postcode (sample_world post_one_down) ''SW1A 1AA'' 500 = Inr (res, arch)"
    and ls: "\<forall>(k, cfg)\<in>set ROFSW_LAYERS.
            map_of (layers res) k
              = (if ea_layer cfg = ''rofsw_0_2m_depth'' then Some (no_data cfg)
                 else map_of (layers res0) k)"
    and es: "set (errors res) \<subseteq> set (errors res0)" "length (errors res) \<le> length (errors res0)"
    unfolding sample_world_down by blast
  from ls depth02_layer(1) have "map_of (layers res) ''depth_0.2m''
      = (if ea_layer (snd (ROFSW_LAYERS ! 3)) = ''rofsw_0_2m_depth''
         then Some (no_data (snd (ROFSW_LAYERS ! 3))) else map_of (layers res0) ''depth_0.2m'')"
    by blast
  then have a: "map_of (layers res) ''depth_0.2m'' = Some (no_data (snd (ROFSW_LAYERS ! 3)))"
    unfolding depth02_layer(2) by simp
  from ls depth02_layer(3) have "map_of (layers res) ''depth_0.3m''
      = (if ea_layer (snd (ROFSW_LAYERS ! 4)) = ''rofsw_0_2m_depth''
         then Some (no_data (snd (ROFSW_LAYERS ! 4))) else map_of (layers res0) ''depth_0.3m'')"
    by blast
  then have b: "map_of (layers res) ''depth_0.3m'' = map_of (layers res0) ''depth_0.3m''"
    unfolding depth02_layer(4) by simp
  from run0 runf a b es show ?thesis by blast
qed

theorem fetch_failure_no_error_entry_counterexample:
  "(\<forall>bbox. download_ea_layer (sample_remote post_one_down) ''rofsw_0_2m_depth'' bbox 3
              = ([Post 1, Sleep 3, Post 2, Sleep 6, Post 3], Inl ''503 Server Error''))
   \<and> (\<forall>bbox. list_all (\<lambda>name. download_ea_layer (sample_remote post_one_down) name bbox 3
                                  = ([Post 1], Inr sample_exploded))
               [''rofsw'', ''rofsw_0_3m_depth'', ''rofsw_0_6m_depth'', ''rofsw_0_9m_depth'',
                ''rofsw_1_2m_depth''])
   \<and> unique_layers = [''rofsw'', ''rofsw_0_2m_depth'', ''rofsw_0_3m_depth'', ''rofsw_0_6m_depth'',
                        ''rofsw_0_9m_depth'', ''rofsw_1_2m_depth'']
   \<and> (\<exists>res arch. process_postcode (sample_world post_one_down) ''SW1A 1AA'' 500 = Inr (res, arch)
          \<and> errors res = []
          \<and> (\<exists>l. map_of (layers res) ''depth_0.2m'' = Some l
                 \<and> status l = ''no_data'' \<and> features l = 0 \<and> error l = None))"
proof -
  have up: "list_all (\<lambda>name. download_ea_layer (sample_remote post_one_down) name bbox 3
                                  = ([Post 1], Inr sample_exploded))
               [''rofsw'', ''rofsw_0_3m_depth'', ''rofsw_0_6m_depth'', ''rofsw_0_9m_depth'',
                ''rofsw_1_2m_depth'']" for bbox
  proof -
    have "download_ea_layer (sample_remote post_one_down) name bbox 3 = ([Post 1], Inr sample_exploded)"
      if "name \<in> set [''rofsw'', ''rofsw_0_3m_depth'', ''rofsw_0_6m_depth'', ''rofsw_0_9m_depth'',
                ''rofsw_1_2m_depth'']" for name
    proof -
      from that have "map_of EA_LAYER_IDS name \<noteq> None" and n: "name \<noteq> ''rofsw_0_2m_depth''"
        by (auto simp: EA_LAYER_IDS_def)
      then obtain layer_id where "map_of EA_LAYER_IDS name = Some layer_id" by blast
      from download_up[OF this n] show ?thesis .
    qed
    then show ?thesis unfolding list_all_iff by blast
  qed
  have u: "unique_layers = [''rofsw'', ''rofsw_0_2m_depth'', ''rofsw_0_3m_depth'', ''rofsw_0_6m_depth'',
                        ''rofsw_0_9m_depth'', ''rofsw_1_2m_depth'']"
    by (simp add: unique_layers_eq EA_LAYER_IDS_def)
  from sample_job_ok obtain res0 arch0 where
    run0: "process_postcode (sample_world post_ok) ''SW1A 1AA'' 500 = Inr (res0, arch0)" by blast
  from failed_source_completes[OF run0 sample_geocode depth02_id sample_fail sample_same]
  obtain res arch where
    runf: "process_postcode (sample_world post_one_down) ''SW1A 1AA'' 500 = Inr (res, arch)"
    unfolding sample_world_down by blast
  from runf have runf': "process_postcode
      ((sample_world post_ok)\<lparr>ea := (ea (sample_world post_ok))\<lparr>post := post_one_down\<rparr>\<rparr>)
      ''SW1A 1AA'' 500 = Inr (res, arch)"
    unfolding sample_world_down .
  from failed_source_errors[OF run0 runf' sample_geocode depth02_id sample_fail sample_same]
    sample_errors_ok[OF run0]
  have e: "errors res = []" by simp
  from failed_source_layers[OF run0 runf' sample_geocode depth02_id sample_fail sample_same
      depth02_layer(1)]
  have "map_of (layers res) ''depth_0.2m'' = Some (no_data (snd (ROFSW_LAYERS ! 3)))"
    unfolding depth02_layer(2) by simp
  then have l: "\<exists>l. map_of (layers res) ''depth_0.2m'' = Some l
                 \<and> status l = ''no_data'' \<and> features l = 0 \<and> error l = None"
    by (simp add: no_data_def)
  from download_down up u runf e l show ?thesis by blast
qed

subsection \<open>A job whose sources are all empty\<close>

lemma update_fresh: "k \<notin> fst ` set xs \<Longrightarrow> AList.update k v xs = xs @ [(k, v)]"
  by (induction xs) auto

lemma fold_no_data_layers:
  "distinct (map fst ls) \<Longrightarrow> fst ` set ls \<inter> fst ` set (layers res) = {} \<Longrightarrow>
   layers (fold (\<lambda>(k, cfg). set_layer k (no_data cfg)) ls res)
     = layers res @ map (\<lambda>(k, cfg). (k, no_data cfg)) ls"
proof (induction ls arbitrary: res)
  case Nil
  then show ?case by simp
next
  case (Cons a ls)
  obtain k cfg where a: "a = (k, cfg)" by (cases a)
  from Cons.prems a have fresh: "k \<notin> fst ` set (layers res)" by auto
  then have l1: "layers (set_layer k (no_data cfg) res) = layers res @ [(k, no_data cfg)]"
    by (simp add: set_layer_def update_fresh)
  from Cons.prems a have d: "distinct (map fst ls)" and nk: "k \<notin> fst ` set ls" by auto
  from Cons.prems a nk have "fst ` set ls \<inter> fst ` set (layers (set_layer k (no_data cfg) res)) = {}"
    unfolding l1 by auto
  from Cons.IH[OF d this] l1 a show ?case by simp
qed

lemma fold_no_data_errors:
  "errors (fold (\<lambda>(k, cfg). set_layer k (no_data cfg)) ls res) = errors res"
  by (induction ls arbitrary: res) (auto simp: set_layer_def)

lemma risk_bands_empty:
  "\<forall>k\<in>set ks. map_of ROFSW_LAYERS k \<noteq> None \<Longrightarrow>
   risk_bands py t None d ks (res, fs)
     = Inr (fold (\<lambda>k. set_layer k (no_data (the (map_of ROFSW_LAYERS k)))) ks res, fs)"
proof (induction ks arbitrary: res)
  case Nil
  then show ?case by simp
next
  case (Cons k ks)
  then obtain cfg where c: "map_of ROFSW_LAYERS k = Some cfg" by auto
  then have s: "risk_band_step py t None d k (res, fs) = Inr (set_layer k (no_data cfg) res, fs)"
    by (simp add: risk_band_step_def)
  from Cons.prems have "\<forall>k\<in>set ks. map_of ROFSW_LAYERS k \<noteq> None" by simp
  from Cons.IH[OF this] s c show ?case by simp
qed

lemma risk_fold:
  "fold (\<lambda>k. set_layer k (no_data (the (map_of ROFSW_LAYERS k))))
      [''risk_band_High'', ''risk_band_Medium'', ''risk_band_Low''] res
   = fold (\<lambda>(k, cfg). set_layer k (no_data cfg)) (take 3 ROFSW_LAYERS) res"
proof -
  have "take 3 ROFSW_LAYERS = [(''risk_band_High'', snd (ROFSW_LAYERS ! 0)),
      (''risk_band_Medium'', snd (ROFSW_LAYERS ! 1)), (''risk_band_Low'', snd (ROFSW_LAYERS ! 2))]"
    by (simp add: ROFSW_LAYERS_def)
  then show ?thesis by (simp add: risk_configs)
qed

lemma depth_loop_empty:
  "\<forall>(k, cfg)\<in>set ls. raw_get raw (ea_layer cfg) = GeoDataFrame \<Longrightarrow>
   depth_loop py e t raw b p d ls (res, fs) = (fold (\<lambda>(k, cfg). set_layer k (no_data cfg)) ls res, fs)"
proof (induction ls arbitrary: res)
  case Nil
  then show ?case by simp
next
  case (Cons a ls)
  obtain k cfg where a: "a = (k, cfg)" by (cases a)
  from Cons.prems a have "raw_get raw (ea_layer cfg) = GeoDataFrame" by simp
  then have p: "process_single_layer py e t k cfg (raw_get raw (ea_layer cfg)) b p d fs
                  = ((k, no_data cfg), fs)"
    by (simp add: psl_empty empty_GeoDataFrame)
  have r: "record_error k (no_data cfg) x = x" for x
    by (simp add: record_error_def no_data_def)
  from Cons.prems have "\<forall>(k, cfg)\<in>set ls. raw_get raw (ea_layer cfg) = GeoDataFrame" by simp
  from Cons.IH[OF this] p r a show ?case by simp
qed

lemma sum_features_no_data:
  "sum_features (map (\<lambda>(k, cfg). (k, no_data cfg)) ls) = 0"
  by (induction ls) (auto simp: sum_features_def no_data_def)

lemma distinct_ROFSW: "distinct (map fst ROFSW_LAYERS)"
  by (simp add: ROFSW_LAYERS_def)

lemma empty_sources_job:
  assumes geo: "geocode w pc = Inr location"
      and raw: "\<forall>name. raw_get (fetch_all (ea w)
                  (snd (create_buffer_bbox (double w) (transform w) (loc_easting location) (loc_northing location) r)))
                  name = GeoDataFrame"
      and wr: "to_file w (''shapefiles'' @ ''/'' @ buffer_filename r @ ''.shp'')
                 (buffer_gdf location r
                    (create_buffer_polygon (shapely w) (loc_easting location) (loc_northing location) r)) = None"
  shows "\<exists>res arch. process_postcode w pc r = Inr (res, arch)
     \<and> layers res = map (\<lambda>(k, cfg). (k, no_data cfg)) ROFSW_LAYERS
                      @ [(''search_buffer'', search_buffer_result location r)]
     \<and> total_features res = Some 1
     \<and> errors res = []
     \<and> arch = [(''shapefiles'' @ ''/'' @ buffer_filename r @ ''.shp'',
                 Shapefile (buffer_gdf location r
                    (create_buffer_polygon (shapely w) (loc_easting location) (loc_northing location) r))),
                (''metadata.json'', Json (metadata w location r))]"
proof -
  let ?wgs = "snd (create_buffer_bbox (double w) (transform w) (loc_easting location) (loc_northing location) r)"
  let ?bng = "fst (create_buffer_bbox (double w) (transform w) (loc_easting location) (loc_northing location) r)"
  let ?b = "create_buffer_polygon (shapely w) (loc_easting location) (loc_northing location) r"
  let ?raw = "fetch_all (ea w) ?wgs"
  let ?ks = "[''risk_band_High'', ''risk_band_Medium'', ''risk_band_Low'']"
  let ?res0 = "initial_results w pc location r ?bng ?wgs"
  let ?F = "\<lambda>(k, cfg). set_layer k (no_data cfg)"
  let ?res2 = "fold ?F ROFSW_LAYERS ?res0"
  let ?path = "''shapefiles'' @ ''/'' @ buffer_filename r @ ''.shp''"
  let ?st3 = "(set_layer ''search_buffer'' (search_buffer_result location r) ?res2,
               [(?path, Shapefile (buffer_gdf location r ?b))])"
  from raw have c: "clip_rofsw (shapely w) ?raw ?b (prep ?b) = Inr None"
    by (simp add: clip_rofsw_empty)
  have "\<forall>k\<in>set ?ks. map_of ROFSW_LAYERS k \<noteq> None" by (simp add: risk_configs)
  from risk_bands_empty[OF this]
  have rb: "risk_bands (runtime w) (to_file w) None ''shapefiles'' ?ks (?res0, [])
              = Inr (fold ?F (take 3 ROFSW_LAYERS) ?res0, [])"
    unfolding risk_fold .
  from raw have "\<forall>(k, cfg)\<in>set depth_layers. raw_get ?raw (ea_layer cfg) = GeoDataFrame" by simp
  from depth_loop_empty[OF this]
  have "depth_loop (runtime w) (shapely w) (to_file w) ?raw ?b (prep ?b) ''shapefiles'' depth_layers
          (fold ?F (take 3 ROFSW_LAYERS) ?res0, [])
        = (fold ?F depth_layers (fold ?F (take 3 ROFSW_LAYERS) ?res0), [])" .
  also have "fold ?F depth_layers (fold ?F (take 3 ROFSW_LAYERS) ?res0) = ?res2"
    using ROFSW_split by (metis comp_apply fold_append)
  finally have dl: "depth_loop (runtime w) (shapely w) (to_file w) ?raw ?b (prep ?b) ''shapefiles''
          depth_layers (fold ?F (take 3 ROFSW_LAYERS) ?res0, []) = (?res2, [])" .
  have ne: "\<not> empty (buffer_gdf location r ?b)" by (simp add: empty_def buffer_gdf_def)
  have sb: "save_buffer (to_file w) location r ?b ''shapefiles'' (?res2, []) = Inr ?st3"
    using wr ne by (simp add: save_buffer_def save_as_shapefile_def Let_def)
  have run: "process_postcode w pc r = Inr (package w location r ?st3)"
    by (rule process_postcode_completes[OF geo c rb]) (simp only: dl sb)
  have l0: "layers ?res0 = []" "errors ?res0 = []" by (simp_all add: initial_results_def)
  have l2: "layers ?res2 = map (\<lambda>(k, cfg). (k, no_data cfg)) ROFSW_LAYERS"
    using fold_no_data_layers[OF distinct_ROFSW, of ?res0] l0 by simp
  have "''search_buffer'' \<notin> fst ` set (layers ?res2)"
    unfolding l2 using not_search_buffer by force
  then have l3: "layers (fst ?st3) = map (\<lambda>(k, cfg). (k, no_data cfg)) ROFSW_LAYERS
                      @ [(''search_buffer'', search_buffer_result location r)]"
    using l2 by (simp add: set_layer_def update_fresh)
  have e3: "errors (fst ?st3) = []"
    using fold_no_data_errors[of ROFSW_LAYERS ?res0] l0 by (simp add: set_layer_def)
  obtain res arch where pk: "package w location r ?st3 = (res, arch)" by (metis surj_pair)
  from package_layers[OF pk] l3 e3 have
    a: "layers res = map (\<lambda>(k, cfg). (k, no_data cfg)) ROFSW_LAYERS
                      @ [(''search_buffer'', search_buffer_result location r)]"
    and b: "errors res = []"
    and t: "total_features res = Some (sum_features (map (\<lambda>(k, cfg). (k, no_data cfg)) ROFSW_LAYERS
                      @ [(''search_buffer'', search_buffer_result location r)]))"
    by simp_all
  have "sum_features (map (\<lambda>(k, cfg). (k, no_data cfg)) ROFSW_LAYERS
                      @ [(''search_buffer'', search_buffer_result location r)])
        = sum_features (map (\<lambda>(k, cfg). (k, no_data cfg)) ROFSW_LAYERS) + 1"
    by (simp add: sum_features_def search_buffer_result_def)
  with t have t1: "total_features res = Some 1" by (simp add: sum_features_no_data)
  from pk have ar: "arch = [(?path, Shapefile (buffer_gdf location r ?b)),
                (''metadata.json'', Json (metadata w location r))]"
    by (auto simp: package_def Let_def create_zip_def)
  from run pk a b t1 ar show ?thesis by simp
qed

lemma fetch_layer_small:
  assumes "\<forall>(name, layer_id)\<in>set EA_LAYER_IDS. \<exists>k content. 1 \<le> k \<and> k \<le> 3
             \<and> (\<forall>j. 1 \<le> j \<and> j < k \<longrightarrow>
                   (\<exists>e. post w (query_url layer_id) (query_polygon bbox) j = HttpError e))
             \<and> post w (query_url layer_id) (query_polygon bbox) k = HttpResponse content
             \<and> length content < 100"
  shows "raw_get (fetch_all w bbox) name = GeoDataFrame"
proof (cases "name \<in> set unique_layers")
  case False
  then show ?thesis by (simp add: raw_get_fetch_all)
next
  case True
  then obtain layer_id where m: "(name, layer_id) \<in> set EA_LAYER_IDS"
    unfolding unique_layers_eq by auto
  have "distinct (map fst EA_LAYER_IDS)" by (simp add: EA_LAYER_IDS_def)
  with m have id: "map_of EA_LAYER_IDS name = Some layer_id" by simp
  from assms m obtain k content where k: "1 \<le> k" "k \<le> 3"
    and before: "\<forall>j. 1 \<le> j \<and> j < k \<longrightarrow>
                   (\<exists>e. post w (query_url layer_id) (query_polygon bbox) j = HttpError e)"
    and at: "post w (query_url layer_id) (query_polygon bbox) k = HttpResponse content"
    and small: "length content < 100"
    by blast
  from retry_small[OF k before at]
  have "snd (retry (post w (query_url layer_id) (query_polygon bbox)) 3 [1..<3 + 1]) = Inr (Some content)" .
  then obtain ev where
    "retry (post w (query_url layer_id) (query_polygon bbox)) 3 [1..<3 + 1] = (ev, Inr (Some content))"
    by (metis prod.collapse)
  with id small have "fetch_layer w bbox name = GeoDataFrame"
    by (simp add: fetch_layer_def download_ea_layer_def parse_response_def)
  then show ?thesis by (rule raw_get_empty)
qed

end
